theory Spec2Isabelle
  imports Complex_Main "HOL-Library.Log_Nat" "HOL-Library.Word"
begin

unbundle bit_operations_syntax

section \<open>The Wayland video-output backend of mpv: data model\<close>

text \<open>
  This theory embeds the parts of \<^verbatim>\<open>video/out/wayland_common.c\<close> and
  \<^verbatim>\<open>video/out/vo_dmabuf_wayland.c\<close> that own the window geometry, the frame pacing,
  the drag-and-drop offer and the dmabuf import, and proves properties of them.

  Conventions of the embedding:
  \<^item> C \<^verbatim>\<open>int\<close> and \<^verbatim>\<open>int64_t\<close> values are \<open>int\<close>. The quantities involved are
    pixel sizes, clock readings in microseconds and a counter that stays below 3, all
    far from the bounds of their types, so no wrap-around is written out. DRM formats
    and modifiers, which are compared and split bitwise, are \<open>32 word\<close> and
    \<open>64 word\<close>, and the frame counter of the dmabuf VO is a \<open>64 word\<close>.
  \<^item> A C \<^verbatim>\<open>double\<close> is the real number it denotes, and every operation on doubles
    rounds its exact result as IEEE 754 binary64 arithmetic does (section
    \<open>Double-precision arithmetic\<close>). A conversion from double to an integer type
    truncates towards zero, and is undefined when the truncated value does not fit the
    type.
  \<^item> The fields \<^verbatim>\<open>gcd\<close>, \<^verbatim>\<open>frame_callback\<close> and \<^verbatim>\<open>feedback\<close> of the state are named
    \<open>wl_gcd\<close>, \<open>frame_callback_ptr\<close> and \<open>feedback_ptr\<close> here, since the first is a
    constant of the logic and the second is also the name of a function of the source.
  \<^item> A function that the C code may leave by undefined behaviour (a division by zero,
    a conversion of a double that the integer type cannot hold) or that may not return
    yields \<open>None\<close> there.
  \<^item> Calls that only log (\<^verbatim>\<open>MP_VERBOSE\<close>) or only write an option back to the
    configuration cache (\<^verbatim>\<open>m_config_cache_write_opt\<close>) change no modelled state.
\<close>

record mp_rect =
  x0 :: int
  y0 :: int
  x1 :: int
  y1 :: int

text \<open>
  Modelled from the spec: the macros \<^verbatim>\<open>mp_rect_w\<close>, \<^verbatim>\<open>mp_rect_h\<close> and the function
  \<^verbatim>\<open>mp_rect_equals\<close> are declared outside the two source files; a rectangle's width is
  \<open>x1 - x0\<close>, its height \<open>y1 - y0\<close>, and two rectangles are equal when their four
  coordinates are.
\<close>

definition mp_rect_w :: "mp_rect \<Rightarrow> int" where
  "mp_rect_w r = x1 r - x0 r"

definition mp_rect_h :: "mp_rect \<Rightarrow> int" where
  "mp_rect_h r = y1 r - y0 r"

definition mp_rect_equals :: "mp_rect \<Rightarrow> mp_rect \<Rightarrow> bool" where
  "mp_rect_equals a b = (x0 a = x0 b \<and> y0 a = y0 b \<and> x1 a = x1 b \<and> y1 a = y1 b)"

text \<open>The fields of \<^verbatim>\<open>struct mp_vo_opts\<close> that the backend reads and writes.\<close>

record mp_vo_opts =
  fullscreen :: bool
  window_maximized :: bool
  window_minimized :: bool
  keepaspect :: bool
  keepaspect_window :: bool
  border :: bool

text \<open>\<^verbatim>\<open>struct wayland_opts\<close>, with the defaults of \<^verbatim>\<open>wayland_conf\<close>.\<close>

record wayland_opts =
  configure_bounds :: bool
  disable_vsync :: bool
  edge_pixels_pointer :: int
  edge_pixels_touch :: int

definition wayland_conf_defaults :: wayland_opts where
  "wayland_conf_defaults =
     \<lparr>configure_bounds = True, disable_vsync = False,
      edge_pixels_pointer = 10, edge_pixels_touch = 32\<rparr>"

text \<open>The bits of \<^verbatim>\<open>pending_vo_events\<close>; the mask is the set of the bits that are set.\<close>

datatype vo_event = VO_EVENT_RESIZE | VO_EVENT_EXPOSE | VO_EVENT_FOCUS
  | VO_EVENT_DPI | VO_EVENT_WIN_STATE

text \<open>
  \<^verbatim>\<open>struct vo_wayland_state\<close>. Pointers to protocol objects are object ids; the
  \<^verbatim>\<open>wl_callback\<close> proxies that exist (created by \<^verbatim>\<open>wl_surface_frame\<close>, not yet
  destroyed) are kept in \<open>callbacks\<close>, the store that stands for libwayland's object
  map, and \<open>next_id\<close> is the next free object id; \<open>offers\<close> holds the
  \<^verbatim>\<open>wl_data_offer\<close> proxies that exist. \<open>vsync_duration\<close> is the field of
  \<^verbatim>\<open>wl->present\<close> and \<open>refresh_rate\<close> the field of \<^verbatim>\<open>wl->current_output\<close>
  that the frame wait reads; \<open>xdg_toplevel\<close> tells whether the pointer of that name
  is set.
\<close>

record vo_wayland_state =
  vo_opts :: mp_vo_opts
  opts :: wayland_opts
  frame_callback_ptr :: "nat option"
  callbacks :: "nat list"
  next_id :: nat
  geometry :: mp_rect
  vdparams :: mp_rect
  window_size :: mp_rect
  wl_gcd :: int
  reduced_height :: int
  reduced_width :: int
  toplevel_width :: int
  toplevel_height :: int
  activated :: bool
  has_keyboard_input :: bool
  focused :: bool
  frame_wait :: bool
  hidden :: bool
  state_change :: bool
  toplevel_configured :: bool
  pending_vo_events :: "vo_event set"
  scaling :: int
  timeout_count :: int
  format_map :: "(32 word \<times> 64 word) list"
  drm_formats :: "32 word list"
  presentation :: bool
  feedback_ptr :: "nat option"
  vsync_duration :: int
  refresh_interval :: int
  refresh_rate :: real
  use_present :: bool
  requested_decoration :: nat
  xdg_toplevel :: bool
  dnd_offer :: "nat option"
  offers :: "nat list"
  dnd_mime_type :: "string option"
  dnd_mime_score :: int
  dnd_fd :: int

section \<open>Double-precision arithmetic\<close>

text \<open>
  A finite \<^verbatim>\<open>double\<close> is a real of the form \<open>m * 2 ^ e\<close> with an integer \<open>m\<close> of
  at most 53 bits. For a real \<open>x\<close> with \<open>2 ^ e \<le> \<bar>x\<bar> < 2 ^ (e + 1)\<close> the doubles next
  to \<open>x\<close> are the multiples of \<open>2 ^ (e - 52)\<close>, and an operation returns the multiple
  nearest to its exact result, the even one of two that are equally near (the default
  rounding mode; the code never changes it). The exponent is not bounded here: there
  is no overflow to infinity and there are no subnormal numbers, the doubles of this
  code being pixel counts, microseconds and their quotients. Every operation rounds
  on its own; a multiplication and an addition are not fused.
\<close>

definition double_exponent :: "real \<Rightarrow> int" where
  "double_exponent x =
     (if 1 \<le> \<bar>x\<bar> then bitlen \<lfloor>\<bar>x\<bar>\<rfloor> - 1 else - bitlen (\<lceil>1 / \<bar>x\<bar>\<rceil> - 1))"

definition double_ulp :: "real \<Rightarrow> real" where
  "double_ulp x = 2 powi (double_exponent x - 52)"

definition round_half_even :: "real \<Rightarrow> int" where
  "round_half_even y =
     (let f = \<lfloor>y\<rfloor>; d = y - of_int f
      in if d < 1 / 2 then f
         else if 1 / 2 < d then f + 1
         else if even f then f else f + 1)"

definition round_double :: "real \<Rightarrow> real" where
  "round_double x =
     (if x = 0 then 0 else of_int (round_half_even (x / double_ulp x)) * double_ulp x)"

text \<open>
  The conversion of an integer to double, the four operations that the code uses, the
  conversion of a double to an integer type, and \<^verbatim>\<open>floor\<close> and \<^verbatim>\<open>ceil\<close> of
  \<^verbatim>\<open>math.h\<close>, whose results are doubles again and are exact. \<open>double_to_int\<close> is the
  truncation; \<open>double_to_int32\<close> is the conversion to a 32-bit \<^verbatim>\<open>int\<close>, which has
  no result when the truncated value is outside the range of the type.
\<close>

definition int_to_double :: "int \<Rightarrow> real" where
  "int_to_double n = round_double (of_int n)"

definition double_add :: "real \<Rightarrow> real \<Rightarrow> real" where
  "double_add a b = round_double (a + b)"

definition double_sub :: "real \<Rightarrow> real \<Rightarrow> real" where
  "double_sub a b = round_double (a - b)"

definition double_mult :: "real \<Rightarrow> real \<Rightarrow> real" where
  "double_mult a b = round_double (a * b)"

definition double_div :: "real \<Rightarrow> real \<Rightarrow> real" where
  "double_div a b = round_double (a / b)"

definition double_to_int :: "real \<Rightarrow> int" where
  "double_to_int d = (if 0 \<le> d then \<lfloor>d\<rfloor> else \<lceil>d\<rceil>)"

definition double_to_int32 :: "real \<Rightarrow> int option" where
  "double_to_int32 d =
     (let n = double_to_int d
      in if - (2 ^ 31) \<le> n \<and> n < 2 ^ 31 then Some n else None)"

definition c_floor :: "real \<Rightarrow> real" where
  "c_floor d = of_int \<lfloor>d\<rfloor>"

definition c_ceil :: "real \<Rightarrow> real" where
  "c_ceil d = of_int \<lceil>d\<rceil>"

section \<open>The greatest common divisor helper\<close>

text \<open>
  \<^verbatim>\<open>greatest_common_divisor(wl, a, b)\<close>: \<^verbatim>\<open>larger/smaller\<close> is the division of two
  C ints (it truncates towards zero and traps when \<^verbatim>\<open>smaller\<close> is 0); its result is
  converted to double for \<^verbatim>\<open>floor\<close>, the product and the difference are computed on
  doubles, and the difference is converted back for \<^verbatim>\<open>remainder\<close>. The recursion is
  the source's; where it does not end, or traps, the result is \<open>None\<close>.
\<close>

definition c_div :: "int \<Rightarrow> int \<Rightarrow> int" where
  "c_div a b = sgn a * sgn b * (\<bar>a\<bar> div \<bar>b\<bar>)"

definition gcd_larger :: "int \<Rightarrow> int \<Rightarrow> int" where
  "gcd_larger a b = (if a > b then a else b)"

definition gcd_smaller :: "int \<Rightarrow> int \<Rightarrow> int" where
  "gcd_smaller a b = (if a > b then b else a)"

definition gcd_remainder :: "int \<Rightarrow> int \<Rightarrow> int" where
  "gcd_remainder a b =
     double_to_int
       (double_sub (int_to_double (gcd_larger a b))
          (double_mult (int_to_double (gcd_smaller a b))
             (c_floor (int_to_double (c_div (gcd_larger a b) (gcd_smaller a b))))))"

partial_function (option) greatest_common_divisor ::
  "vo_wayland_state \<Rightarrow> int \<Rightarrow> int \<Rightarrow> vo_wayland_state option" where
  "greatest_common_divisor wl a b =
     (if gcd_smaller a b = 0 then None
      else if gcd_remainder a b = 0 then Some (wl\<lparr>wl_gcd := gcd_smaller a b\<rparr>)
      else greatest_common_divisor wl (gcd_smaller a b) (gcd_remainder a b))"

text \<open>
  \<^verbatim>\<open>set_geometry\<close>. The display size \<^verbatim>\<open>vo->dwidth\<close>, \<^verbatim>\<open>vo->dheight\<close> is the result
  of \<^verbatim>\<open>vo_calc_window_geometry\<close> and \<^verbatim>\<open>vo_apply_window_geometry\<close>, which are not
  part of the two files: it is a parameter. The divisions are divisions of C ints.
\<close>

definition set_geometry ::
  "vo_wayland_state \<Rightarrow> int \<Rightarrow> int \<Rightarrow> vo_wayland_state option" where
  "set_geometry wl dwidth dheight =
     (case greatest_common_divisor wl dwidth dheight of
        None \<Rightarrow> None
      | Some wl1 \<Rightarrow>
          if wl_gcd wl1 = 0 \<or> scaling wl1 = 0 then None
          else Some (wl1\<lparr>reduced_width := c_div dwidth (wl_gcd wl1),
                         reduced_height := c_div dheight (wl_gcd wl1),
                         vdparams := \<lparr>x0 = 0, y0 = 0,
                                      x1 = c_div dwidth (scaling wl1),
                                      y1 = c_div dheight (scaling wl1)\<rparr>\<rparr>))"

section \<open>Edge resize zones\<close>

text \<open>
  \<^verbatim>\<open>enum xdg_toplevel_resize_edge\<close> of the xdg-shell protocol: none, the four sides
  and the four corners.
\<close>

datatype xdg_toplevel_resize_edge =
    XDG_TOPLEVEL_RESIZE_EDGE_NONE
  | XDG_TOPLEVEL_RESIZE_EDGE_TOP
  | XDG_TOPLEVEL_RESIZE_EDGE_BOTTOM
  | XDG_TOPLEVEL_RESIZE_EDGE_LEFT
  | XDG_TOPLEVEL_RESIZE_EDGE_TOP_LEFT
  | XDG_TOPLEVEL_RESIZE_EDGE_BOTTOM_LEFT
  | XDG_TOPLEVEL_RESIZE_EDGE_RIGHT
  | XDG_TOPLEVEL_RESIZE_EDGE_TOP_RIGHT
  | XDG_TOPLEVEL_RESIZE_EDGE_BOTTOM_RIGHT

text \<open>
  A \<^verbatim>\<open>wl_fixed_t\<close> is a signed 24.8 fixed-point number; \<^verbatim>\<open>wl_fixed_to_double\<close>
  divides it by 256, which is exact in a double. Storing the double in an \<^verbatim>\<open>int\<close>
  truncates towards zero.
\<close>

definition wl_fixed_to_double :: "int \<Rightarrow> real" where
  "wl_fixed_to_double f = of_int f / 256"

text \<open>
  \<^verbatim>\<open>check_for_resize\<close> returns whether a resize edge was found, and the value it
  stored in \<^verbatim>\<open>*edge\<close>: \<open>None\<close> when it returned before writing it.
\<close>

definition check_for_resize ::
  "vo_wayland_state \<Rightarrow> int \<Rightarrow> int \<Rightarrow> int \<Rightarrow> bool \<times> xdg_toplevel_resize_edge option" where
  "check_for_resize wl x_w y_w edge_pixels =
     (if fullscreen (vo_opts wl) \<or> window_maximized (vo_opts wl) then (False, None)
      else
        let pos0 = double_to_int (wl_fixed_to_double x_w);
            pos1 = double_to_int (wl_fixed_to_double y_w);
            left_edge = (pos0 < edge_pixels);
            top_edge = (pos1 < edge_pixels);
            right_edge = (pos0 > mp_rect_w (geometry wl) - edge_pixels);
            bottom_edge = (pos1 > mp_rect_h (geometry wl) - edge_pixels)
        in
          if left_edge then
            (True, Some (if top_edge then XDG_TOPLEVEL_RESIZE_EDGE_TOP_LEFT
                         else if bottom_edge then XDG_TOPLEVEL_RESIZE_EDGE_BOTTOM_LEFT
                         else XDG_TOPLEVEL_RESIZE_EDGE_LEFT))
          else if right_edge then
            (True, Some (if top_edge then XDG_TOPLEVEL_RESIZE_EDGE_TOP_RIGHT
                         else if bottom_edge then XDG_TOPLEVEL_RESIZE_EDGE_BOTTOM_RIGHT
                         else XDG_TOPLEVEL_RESIZE_EDGE_RIGHT))
          else if top_edge then (True, Some XDG_TOPLEVEL_RESIZE_EDGE_TOP)
          else if bottom_edge then (True, Some XDG_TOPLEVEL_RESIZE_EDGE_BOTTOM)
          else (False, Some XDG_TOPLEVEL_RESIZE_EDGE_NONE))"

text \<open>
  The specification's words, for comparison with the code: the borders of the window, the
  borders whose margin of \<open>E\<close> pixels holds the pixel \<open>(px, py)\<close>, and the borders
  that an edge value names. The left and top borders are at coordinate 0, the right
  and bottom ones at the width and the height of the geometry.
\<close>

datatype border = Border_left | Border_right | Border_top | Border_bottom

definition within_margin :: "vo_wayland_state \<Rightarrow> int \<Rightarrow> int \<Rightarrow> int \<Rightarrow> border \<Rightarrow> bool" where
  "within_margin wl px py E b =
     (case b of
        Border_left \<Rightarrow> px - 0 < E
      | Border_right \<Rightarrow> mp_rect_w (geometry wl) - px < E
      | Border_top \<Rightarrow> py - 0 < E
      | Border_bottom \<Rightarrow> mp_rect_h (geometry wl) - py < E)"

fun edge_borders :: "xdg_toplevel_resize_edge \<Rightarrow> border list" where
  "edge_borders XDG_TOPLEVEL_RESIZE_EDGE_NONE = []"
| "edge_borders XDG_TOPLEVEL_RESIZE_EDGE_TOP = [Border_top]"
| "edge_borders XDG_TOPLEVEL_RESIZE_EDGE_BOTTOM = [Border_bottom]"
| "edge_borders XDG_TOPLEVEL_RESIZE_EDGE_LEFT = [Border_left]"
| "edge_borders XDG_TOPLEVEL_RESIZE_EDGE_TOP_LEFT = [Border_top, Border_left]"
| "edge_borders XDG_TOPLEVEL_RESIZE_EDGE_BOTTOM_LEFT = [Border_bottom, Border_left]"
| "edge_borders XDG_TOPLEVEL_RESIZE_EDGE_RIGHT = [Border_right]"
| "edge_borders XDG_TOPLEVEL_RESIZE_EDGE_TOP_RIGHT = [Border_top, Border_right]"
| "edge_borders XDG_TOPLEVEL_RESIZE_EDGE_BOTTOM_RIGHT = [Border_bottom, Border_right]"

definition is_corner :: "xdg_toplevel_resize_edge \<Rightarrow> bool" where
  "is_corner e = (length (edge_borders e) = 2)"

section \<open>Visibility check and drawing\<close>

text \<open>\<^verbatim>\<open>vo_wayland_check_visible\<close> returns \<^verbatim>\<open>render\<close> and the state it leaves.\<close>

definition vo_wayland_check_visible :: "vo_wayland_state \<Rightarrow> bool \<times> vo_wayland_state" where
  "vo_wayland_check_visible wl =
     (let render = (\<not> hidden wl \<or> disable_vsync (opts wl))
      in (render, wl\<lparr>frame_wait := True\<rparr>))"

text \<open>
  \<^verbatim>\<open>struct priv\<close> of the dmabuf VO: \<open>wlbuf_pool\<close> tells whether the pool is
  allocated. The buffer pool (\<^verbatim>\<open>wlbuf_pool.c\<close>) is outside the two files: what
  \<^verbatim>\<open>draw_frame\<close> asks of it and of the compositor is recorded as a list of
  actions, and its answers are parameters: \<open>va_display\<close> (is there a VADisplay),
  \<open>entry\<close> (the buffer of the pool entry for the frame, if the pool gave one).
  \<open>have_vaapi\<close> and \<open>have_drm\<close> stand for the build flags. Allocating the pool is
  taken to succeed.
\<close>

record priv =
  wlbuf_pool :: bool
  want_reset :: bool
  reset_count :: "64 word"

datatype draw_action =
    Wlbuf_pool_clean
  | Wlbuf_pool_alloc_vaapi
  | Wlbuf_pool_alloc_drmprime
  | Wlbuf_pool_get_entry
  | Wl_surface_attach nat
  | Wl_surface_damage_buffer

record draw_env =
  have_vaapi :: bool
  have_drm :: bool
  va_display :: bool
  entry :: "nat option"

definition draw_frame_reset :: "priv \<Rightarrow> priv \<times> draw_action list" where
  "draw_frame_reset p0 =
     (let p = p0\<lparr>reset_count := reset_count p0 + 1\<rparr>
      in if want_reset p \<and> reset_count p \<le> 2
         then (if reset_count p = 2 then p\<lparr>want_reset := False\<rparr> else p, [Wlbuf_pool_clean])
         else (p, []))"

definition draw_frame_pool :: "draw_env \<Rightarrow> priv \<Rightarrow> priv \<times> draw_action list" where
  "draw_frame_pool env p =
     (if wlbuf_pool p then (p, [])
      else
        let (p1, a1) = (if have_vaapi env \<and> va_display env
                        then (p\<lparr>wlbuf_pool := True\<rparr>, [Wlbuf_pool_alloc_vaapi])
                        else (p, []))
        in if have_drm env \<and> \<not> wlbuf_pool p1
           then (p1\<lparr>wlbuf_pool := True\<rparr>, a1 @ [Wlbuf_pool_alloc_drmprime])
           else (p1, a1))"

definition draw_frame ::
  "draw_env \<Rightarrow> priv \<Rightarrow> vo_wayland_state \<Rightarrow> priv \<times> vo_wayland_state \<times> draw_action list" where
  "draw_frame env p wl =
     (let (render, wl1) = vo_wayland_check_visible wl
      in if \<not> render then (p, wl1, [])
         else
           let (p1, a1) = draw_frame_reset p;
               (p2, a2) = draw_frame_pool env p1
           in case entry env of
                None \<Rightarrow> (p2, wl1, a1 @ a2 @ [Wlbuf_pool_get_entry])
              | Some buffer \<Rightarrow>
                  (p2, wl1, a1 @ a2 @ [Wlbuf_pool_get_entry, Wl_surface_attach buffer,
                                       Wl_surface_damage_buffer]))"

section \<open>Toplevel configure events\<close>

text \<open>
  \<^verbatim>\<open>enum xdg_toplevel_state\<close>, the entries of the \<^verbatim>\<open>states\<close> array of a configure
  event; a value the switch has no case for is \<open>XDG_TOPLEVEL_STATE_OTHER\<close>.
\<close>

datatype xdg_toplevel_state =
    XDG_TOPLEVEL_STATE_MAXIMIZED
  | XDG_TOPLEVEL_STATE_FULLSCREEN
  | XDG_TOPLEVEL_STATE_RESIZING
  | XDG_TOPLEVEL_STATE_ACTIVATED
  | XDG_TOPLEVEL_STATE_TILED_LEFT
  | XDG_TOPLEVEL_STATE_TILED_RIGHT
  | XDG_TOPLEVEL_STATE_TILED_TOP
  | XDG_TOPLEVEL_STATE_TILED_BOTTOM
  | XDG_TOPLEVEL_STATE_OTHER nat

text \<open>
  The locals \<^verbatim>\<open>is_maximized\<close>, \<^verbatim>\<open>is_fullscreen\<close>, \<^verbatim>\<open>is_activated\<close> of
  \<^verbatim>\<open>handle_toplevel_config\<close>, and one round of its \<^verbatim>\<open>wl_array_for_each\<close> loop: the
  switch on one entry, which also clears \<^verbatim>\<open>window_minimized\<close> on an activated state.
\<close>

record config_locals =
  is_maximized :: bool
  is_fullscreen :: bool
  is_activated :: bool

fun toplevel_state_switch ::
  "xdg_toplevel_state \<Rightarrow> config_locals \<times> mp_vo_opts \<Rightarrow> config_locals \<times> mp_vo_opts" where
  "toplevel_state_switch XDG_TOPLEVEL_STATE_FULLSCREEN (l, vo) = (l\<lparr>is_fullscreen := True\<rparr>, vo)"
| "toplevel_state_switch XDG_TOPLEVEL_STATE_RESIZING (l, vo) = (l, vo)"
| "toplevel_state_switch XDG_TOPLEVEL_STATE_ACTIVATED (l, vo) =
     (l\<lparr>is_activated := True\<rparr>, vo\<lparr>window_minimized := False\<rparr>)"
| "toplevel_state_switch XDG_TOPLEVEL_STATE_TILED_TOP (l, vo) = (l\<lparr>is_maximized := True\<rparr>, vo)"
| "toplevel_state_switch XDG_TOPLEVEL_STATE_TILED_LEFT (l, vo) = (l\<lparr>is_maximized := True\<rparr>, vo)"
| "toplevel_state_switch XDG_TOPLEVEL_STATE_TILED_RIGHT (l, vo) = (l\<lparr>is_maximized := True\<rparr>, vo)"
| "toplevel_state_switch XDG_TOPLEVEL_STATE_TILED_BOTTOM (l, vo) = (l\<lparr>is_maximized := True\<rparr>, vo)"
| "toplevel_state_switch XDG_TOPLEVEL_STATE_MAXIMIZED (l, vo) = (l\<lparr>is_maximized := True\<rparr>, vo)"
| "toplevel_state_switch (XDG_TOPLEVEL_STATE_OTHER n) (l, vo) = (l, vo)"

definition toplevel_states_loop ::
  "xdg_toplevel_state list \<Rightarrow> mp_vo_opts \<Rightarrow> config_locals \<times> mp_vo_opts" where
  "toplevel_states_loop states vo =
     fold toplevel_state_switch states
       (\<lparr>is_maximized = False, is_fullscreen = False, is_activated = False\<rparr>, vo)"

text \<open>
  \<^verbatim>\<open>request_decoration_mode\<close> stores the mode and sends the request to the compositor.
\<close>

definition request_decoration_mode :: "vo_wayland_state \<Rightarrow> nat \<Rightarrow> vo_wayland_state" where
  "request_decoration_mode wl mode = wl\<lparr>requested_decoration := mode\<rparr>"

text \<open>
  The parts of \<^verbatim>\<open>handle_toplevel_config\<close>: taking over the fullscreen and maximized
  flags; the activation block; the label \<^verbatim>\<open>resize\<close>; the size of an ordinary
  configure; and, in \<open>config_apply\<close>, everything from the test of \<^verbatim>\<open>state_change\<close>
  to the end. \<open>keepaspect_size\<close> is the block under \<^verbatim>\<open>if (vo_opts->keepaspect)\<close>:
  the scale factor and the two products are doubles, and each \<^verbatim>\<open>ceil\<close> is stored in
  an \<^verbatim>\<open>int32_t\<close>; with \<^verbatim>\<open>reduced_width\<close> zero the factor is infinite, so that the
  conversion is undefined, as it is when a result does not fit the \<^verbatim>\<open>int32_t\<close>.
\<close>

definition config_take_states :: "vo_wayland_state \<Rightarrow> config_locals \<Rightarrow> vo_wayland_state" where
  "config_take_states wl l =
     (let wl1 = (if fullscreen (vo_opts wl) \<noteq> is_fullscreen l
                 then wl\<lparr>state_change := True,
                         vo_opts := (vo_opts wl)\<lparr>fullscreen := is_fullscreen l\<rparr>\<rparr>
                 else wl);
          wl2 = (if window_maximized (vo_opts wl1) \<noteq> is_maximized l
                 then wl1\<lparr>state_change := True,
                          vo_opts := (vo_opts wl1)\<lparr>window_maximized := is_maximized l\<rparr>\<rparr>
                 else wl1)
      in if requested_decoration wl2 \<noteq> 0
         then request_decoration_mode wl2 (requested_decoration wl2)
         else wl2)"

definition config_activation :: "vo_wayland_state \<Rightarrow> config_locals \<Rightarrow> vo_wayland_state" where
  "config_activation wl l =
     (if activated wl \<noteq> is_activated l then
        let wl1 = wl\<lparr>activated := is_activated l\<rparr>;
            wl2 = (if (\<not> focused wl1 \<and> activated wl1 \<and> has_keyboard_input wl1)
                      \<or> (focused wl1 \<and> \<not> activated wl1)
                   then wl1\<lparr>focused := \<not> focused wl1,
                            pending_vo_events := insert VO_EVENT_FOCUS (pending_vo_events wl1)\<rparr>
                   else wl1)
        in if activated wl2
           then wl2\<lparr>hidden := False,
                    pending_vo_events := insert VO_EVENT_EXPOSE (pending_vo_events wl2)\<rparr>
           else wl2
      else wl)"

definition config_resize :: "vo_wayland_state \<Rightarrow> vo_wayland_state" where
  "config_resize wl =
     wl\<lparr>pending_vo_events := insert VO_EVENT_RESIZE (pending_vo_events wl),
        toplevel_configured := True\<rparr>"

definition keepaspect_size ::
  "vo_wayland_state \<Rightarrow> int \<Rightarrow> int \<Rightarrow> (int \<times> int) option" where
  "keepaspect_size wl width height =
     (if reduced_width wl = 0 then None
      else
        let scale_factor = double_div (int_to_double width) (int_to_double (reduced_width wl))
        in case double_to_int32 (c_ceil
                  (double_mult (int_to_double (reduced_width wl)) scale_factor)) of
             None \<Rightarrow> None
           | Some width1 \<Rightarrow>
               if keepaspect_window (vo_opts wl) then
                 (case double_to_int32 (c_ceil
                          (double_mult (int_to_double (reduced_height wl)) scale_factor)) of
                    None \<Rightarrow> None
                  | Some height1 \<Rightarrow> Some (width1, height1))
               else Some (width1, height))"

definition config_new_size ::
  "vo_wayland_state \<Rightarrow> config_locals \<Rightarrow> int \<Rightarrow> int \<Rightarrow> vo_wayland_state option" where
  "config_new_size wl l width height =
     (if \<not> is_fullscreen l \<and> \<not> is_maximized l then
        if keepaspect (vo_opts wl) then
          (case keepaspect_size wl width height of
             None \<Rightarrow> None
           | Some (width1, height1) \<Rightarrow>
               Some (wl\<lparr>window_size := \<lparr>x0 = 0, y0 = 0, x1 = width1, y1 = height1\<rparr>,
                        geometry := \<lparr>x0 = 0, y0 = 0, x1 = width1, y1 = height1\<rparr>\<rparr>))
        else Some (wl\<lparr>window_size := \<lparr>x0 = 0, y0 = 0, x1 = width, y1 = height\<rparr>,
                      geometry := \<lparr>x0 = 0, y0 = 0, x1 = width, y1 = height\<rparr>\<rparr>)
      else Some (wl\<lparr>geometry := \<lparr>x0 = 0, y0 = 0, x1 = width, y1 = height\<rparr>\<rparr>))"

definition config_apply ::
  "vo_wayland_state \<Rightarrow> config_locals \<Rightarrow> mp_rect \<Rightarrow> int \<Rightarrow> int \<Rightarrow> int \<Rightarrow> int
     \<Rightarrow> vo_wayland_state option" where
  "config_apply wl1 l old_geometry old_toplevel_width old_toplevel_height width height =
     (if state_change wl1 \<and> \<not> is_fullscreen l \<and> \<not> is_maximized l then
        Some (config_resize (wl1\<lparr>geometry := window_size wl1, state_change := False\<rparr>))
      else if width = 0 \<or> height = 0 then
        Some (config_resize
          (if \<not> is_fullscreen l \<and> \<not> is_maximized l
           then wl1\<lparr>geometry := window_size wl1\<rparr> else wl1))
      else if old_toplevel_width = toplevel_width wl1
              \<and> old_toplevel_height = toplevel_height wl1 then Some wl1
      else
        (case config_new_size wl1 l width height of
           None \<Rightarrow> None
         | Some wl2 \<Rightarrow>
             if mp_rect_equals old_geometry (geometry wl2) then Some wl2
             else Some (config_resize wl2)))"

definition handle_toplevel_config ::
  "vo_wayland_state \<Rightarrow> int \<Rightarrow> int \<Rightarrow> xdg_toplevel_state list \<Rightarrow> vo_wayland_state option" where
  "handle_toplevel_config wl0 width height states =
     (let old_geometry = geometry wl0;
          old_toplevel_width = toplevel_width wl0;
          old_toplevel_height = toplevel_height wl0;
          wl = wl0\<lparr>toplevel_width := width, toplevel_height := height\<rparr>
      in if mp_rect_w (geometry wl) = 0 \<or> mp_rect_h (geometry wl) = 0 then Some wl
         else
           let (l, vo) = toplevel_states_loop states (vo_opts wl);
               wl1 = config_activation (config_take_states (wl\<lparr>vo_opts := vo\<rparr>) l) l
           in config_apply wl1 l old_geometry old_toplevel_width old_toplevel_height
                width height)"

text \<open>
  The specification's words for the state an event carries: the window is fullscreen when the
  array holds the fullscreen state, maximized when it holds the maximized state or one
  of the tiled states, and windowed when it is neither.
\<close>

definition event_fullscreen :: "xdg_toplevel_state list \<Rightarrow> bool" where
  "event_fullscreen states = (XDG_TOPLEVEL_STATE_FULLSCREEN \<in> set states)"

definition event_maximized :: "xdg_toplevel_state list \<Rightarrow> bool" where
  "event_maximized states =
     (XDG_TOPLEVEL_STATE_MAXIMIZED \<in> set states
      \<or> XDG_TOPLEVEL_STATE_TILED_LEFT \<in> set states
      \<or> XDG_TOPLEVEL_STATE_TILED_RIGHT \<in> set states
      \<or> XDG_TOPLEVEL_STATE_TILED_TOP \<in> set states
      \<or> XDG_TOPLEVEL_STATE_TILED_BOTTOM \<in> set states)"



section \<open>Frame callbacks\<close>

text \<open>
  \<^verbatim>\<open>wl_surface_frame\<close> creates a \<^verbatim>\<open>wl_callback\<close> proxy with a fresh id, and
  \<^verbatim>\<open>wl_callback_destroy\<close> removes one. These two are the only operations on the
  store \<open>callbacks\<close>.
\<close>

definition wl_surface_frame :: "vo_wayland_state \<Rightarrow> nat \<times> vo_wayland_state" where
  "wl_surface_frame wl =
     (next_id wl, wl\<lparr>callbacks := callbacks wl @ [next_id wl], next_id := Suc (next_id wl)\<rparr>)"

definition wl_callback_destroy :: "vo_wayland_state \<Rightarrow> nat \<Rightarrow> vo_wayland_state" where
  "wl_callback_destroy wl c = wl\<lparr>callbacks := removeAll c (callbacks wl)\<rparr>"

definition wp_presentation_feedback :: "vo_wayland_state \<Rightarrow> nat \<times> vo_wayland_state" where
  "wp_presentation_feedback wl = (next_id wl, wl\<lparr>next_id := Suc (next_id wl)\<rparr>)"

text \<open>
  \<^verbatim>\<open>frame_callback\<close>, the listener of a frame callback: \<open>callback\<close> is the proxy that
  fired (\<open>None\<close> for a null pointer).
\<close>

definition frame_callback :: "vo_wayland_state \<Rightarrow> nat option \<Rightarrow> vo_wayland_state" where
  "frame_callback wl callback =
     (let wl1 = (case callback of None \<Rightarrow> wl | Some c \<Rightarrow> wl_callback_destroy wl c);
          (cb, wl2) = wl_surface_frame wl1;
          wl3 = wl2\<lparr>frame_callback_ptr := Some cb\<rparr>;
          wl4 = (if presentation wl3
                 then (let (fb, wl') = wp_presentation_feedback wl3
                       in wl'\<lparr>feedback_ptr := Some fb\<rparr>)
                 else wl3)
      in wl4\<lparr>frame_wait := False, hidden := False\<rparr>)"

section \<open>Drag and drop\<close>

text \<open>
  The listeners of the data offer and the data device. \<open>score\<close> is
  \<^verbatim>\<open>mp_event_get_mime_type_score\<close>, which belongs to the input layer. The listeners
  that send \<^verbatim>\<open>wl_data_offer_accept\<close> also return the mime type they accept
  (\<open>None\<close> is the null pointer, which rejects the offer).
\<close>

definition data_offer_handle_offer ::
  "(string \<Rightarrow> int) \<Rightarrow> vo_wayland_state \<Rightarrow> string \<Rightarrow> vo_wayland_state" where
  "data_offer_handle_offer score wl mime_type =
     (if score mime_type > dnd_mime_score wl
      then wl\<lparr>dnd_mime_score := score mime_type, dnd_mime_type := Some mime_type\<rparr>
      else wl)"

definition wl_data_offer_destroy :: "vo_wayland_state \<Rightarrow> nat \<Rightarrow> vo_wayland_state" where
  "wl_data_offer_destroy wl offer = wl\<lparr>offers := removeAll offer (offers wl)\<rparr>"

definition data_device_handle_data_offer :: "vo_wayland_state \<Rightarrow> nat \<Rightarrow> vo_wayland_state" where
  "data_device_handle_data_offer wl id' =
     (let wl0 = wl\<lparr>offers := offers wl @ [id']\<rparr>;
          wl1 = (case dnd_offer wl0 of None \<Rightarrow> wl0 | Some old \<Rightarrow> wl_data_offer_destroy wl0 old)
      in wl1\<lparr>dnd_offer := Some id'\<rparr>)"


definition data_device_handle_motion :: "vo_wayland_state \<Rightarrow> string option" where
  "data_device_handle_motion wl = dnd_mime_type wl"

definition data_device_handle_leave :: "vo_wayland_state \<Rightarrow> vo_wayland_state" where
  "data_device_handle_leave wl =
     (case dnd_offer wl of
        None \<Rightarrow> wl\<lparr>dnd_mime_type := None, dnd_mime_score := 0\<rparr>
      | Some offer \<Rightarrow>
          if dnd_fd wl \<noteq> - 1 then wl
          else (wl_data_offer_destroy wl offer)
                 \<lparr>dnd_offer := None, dnd_mime_type := None, dnd_mime_score := 0\<rparr>)"

definition data_device_handle_selection :: "vo_wayland_state \<Rightarrow> vo_wayland_state" where
  "data_device_handle_selection wl =
     (case dnd_offer wl of
        None \<Rightarrow> wl
      | Some offer \<Rightarrow> (wl_data_offer_destroy wl offer)\<lparr>dnd_offer := None\<rparr>)"

text \<open>
  \<^verbatim>\<open>data_device_handle_drop\<close>: \<open>pipefd\<close> is the read end of the pipe that
  \<^verbatim>\<open>pipe2\<close> made, \<open>None\<close> when it failed. \<^verbatim>\<open>check_dnd_fd\<close> polls that
  descriptor without waiting: \<open>Poll_none\<close> when \<^verbatim>\<open>poll\<close> reports nothing, otherwise
  whether \<^verbatim>\<open>POLLIN\<close> and whether \<^verbatim>\<open>POLLERR\<close> or \<^verbatim>\<open>POLLHUP\<close> is set. The payload
  it reads goes to the input layer; \<^verbatim>\<open>dnd_action\<close> is not part of the state.
\<close>

definition data_device_handle_drop :: "vo_wayland_state \<Rightarrow> int option \<Rightarrow> vo_wayland_state" where
  "data_device_handle_drop wl pipefd =
     (case pipefd of None \<Rightarrow> wl | Some fd \<Rightarrow> wl\<lparr>dnd_fd := fd\<rparr>)"

datatype poll_result = Poll_none | Poll_ready bool bool

definition check_dnd_fd :: "vo_wayland_state \<Rightarrow> poll_result \<Rightarrow> vo_wayland_state" where
  "check_dnd_fd wl r =
     (if dnd_fd wl = - 1 then wl
      else
        case r of
          Poll_none \<Rightarrow> wl
        | Poll_ready pollin err \<Rightarrow>
            let wl1 = (if pollin then wl\<lparr>dnd_mime_type := None, dnd_mime_score := 0\<rparr> else wl)
            in if pollin \<or> err then wl1\<lparr>dnd_fd := - 1\<rparr> else wl1)"


section \<open>Supported dmabuf formats and the two importers\<close>

text \<open>
  \<open>format_map\<close> holds the entries of the mapped format table (16 bytes each: format,
  padding, modifier), so the first loop of \<^verbatim>\<open>vo_wayland_supported_format\<close> runs over
  \<open>format_size / 16\<close> entries; \<open>drm_formats\<close> is the list of the older protocol
  version, whose \<^verbatim>\<open>int\<close> entries are compared as 32-bit patterns.
\<close>

fun format_table_loop :: "(32 word \<times> 64 word) list \<Rightarrow> 32 word \<Rightarrow> 64 word \<Rightarrow> bool" where
  "format_table_loop [] drm_format modifier = False"
| "format_table_loop ((f, m) # formats) drm_format modifier =
     (if drm_format = f \<and> modifier = m then True
      else format_table_loop formats drm_format modifier)"

fun drm_formats_loop :: "32 word list \<Rightarrow> 32 word \<Rightarrow> bool" where
  "drm_formats_loop [] drm_format = False"
| "drm_formats_loop (f # formats) drm_format =
     (if drm_format = f then True else drm_formats_loop formats drm_format)"

definition vo_wayland_supported_format ::
  "vo_wayland_state \<Rightarrow> 32 word \<Rightarrow> 64 word \<Rightarrow> bool" where
  "vo_wayland_supported_format wl drm_format modifier =
     (if format_table_loop (format_map wl) drm_format modifier then True
      else if drm_formats_loop (drm_formats wl) drm_format then True
      else False)"

text \<open>
  A \<^verbatim>\<open>zwp_linux_buffer_params_v1_add\<close> request: file descriptor, plane index, offset,
  stride, and the high and low halves of the modifier. The offset, the stride and the
  two halves are \<^verbatim>\<open>uint32_t\<close> arguments; an argument of a wider type is reduced
  modulo \<open>2 ^ 32\<close> when it is passed.
\<close>

datatype params_request =
  Params_add int nat "32 word" "32 word" "32 word" "32 word"

definition modifier_hi :: "64 word \<Rightarrow> 32 word" where
  "modifier_hi modifier = ucast (drop_bit 32 modifier)"

definition modifier_lo :: "64 word \<Rightarrow> 32 word" where
  "modifier_lo modifier = ucast (modifier AND 0xffffffff)"

text \<open>
  What an importer leaves behind: its return value, the format it stored in the pool
  entry (if it stored one), the requests it sent, and the descriptors it closed.
\<close>

record import_result =
  dmabuf_imported :: bool
  entry_drm_format :: "32 word option"
  requests :: "params_request list"
  closed_fds :: "int list"

text \<open>
  \<^verbatim>\<open>VADRMPRIMESurfaceDescriptor\<close>, the result of \<^verbatim>\<open>vaExportSurfaceHandle\<close>, which
  is a parameter together with the status; its fixed-size arrays are functions of the
  index, and its offsets and pitches are \<^verbatim>\<open>uint32_t\<close>. The macro \<^verbatim>\<open>CHECK_VA_STATUS\<close> is defined outside the two files: it is taken
  to be true on \<^verbatim>\<open>VA_STATUS_SUCCESS\<close> and to log and be false otherwise.
\<close>

datatype va_status = VA_STATUS_SUCCESS | VA_STATUS_ERROR_INVALID_SURFACE | VA_STATUS_ERROR nat

record va_object =
  va_fd :: int
  va_drm_format_modifier :: "64 word"

record va_layer =
  va_drm_format :: "32 word"
  va_num_planes :: nat
  va_object_index :: "nat \<Rightarrow> nat"
  va_offset :: "nat \<Rightarrow> 32 word"
  va_pitch :: "nat \<Rightarrow> 32 word"

record va_surface_descriptor =
  va_num_objects :: nat
  va_objects :: "nat \<Rightarrow> va_object"
  va_layers :: "nat \<Rightarrow> va_layer"

definition vaapi_add_planes :: "va_surface_descriptor \<Rightarrow> nat \<Rightarrow> params_request list" where
  "vaapi_add_planes desc layer_no =
     map (\<lambda>plane_no.
            let object' = va_object_index (va_layers desc layer_no) plane_no;
                modifier = va_drm_format_modifier (va_objects desc object')
            in Params_add (va_fd (va_objects desc object')) plane_no
                 (va_offset (va_layers desc layer_no) plane_no)
                 (va_pitch (va_layers desc layer_no) plane_no)
                 (modifier_hi modifier) (modifier_lo modifier))
         [0..<va_num_planes (va_layers desc layer_no)]"

definition vaapi_dmabuf_importer ::
  "vo_wayland_state \<Rightarrow> va_status \<Rightarrow> va_surface_descriptor \<Rightarrow> import_result" where
  "vaapi_dmabuf_importer wl status desc =
     (let layer_no = 0;
          cleanup = (if status \<noteq> VA_STATUS_ERROR_INVALID_SURFACE
                     then map (\<lambda>i. va_fd (va_objects desc i)) [0..<va_num_objects desc]
                     else [])
      in if status = VA_STATUS_ERROR_INVALID_SURFACE then
           \<lparr>dmabuf_imported = False, entry_drm_format = None, requests = [], closed_fds = cleanup\<rparr>
         else if \<not> vo_wayland_supported_format wl (va_drm_format (va_layers desc 0))
                     (va_drm_format_modifier (va_objects desc 0)) then
           \<lparr>dmabuf_imported = False, entry_drm_format = None, requests = [], closed_fds = cleanup\<rparr>
         else if status = VA_STATUS_SUCCESS then
           \<lparr>dmabuf_imported = True,
            entry_drm_format = Some (va_drm_format (va_layers desc layer_no)),
            requests = vaapi_add_planes desc layer_no, closed_fds = cleanup\<rparr>
         else
           \<lparr>dmabuf_imported = False, entry_drm_format = None, requests = [], closed_fds = cleanup\<rparr>)"

text \<open>
  \<^verbatim>\<open>AVDRMFrameDescriptor\<close>, attached to the decoded frame, and the importer that
  reads it. The offset and the pitch of a plane are \<^verbatim>\<open>ptrdiff_t\<close> and are converted to
  \<^verbatim>\<open>uint32_t\<close> for the request. The importer has the state at hand (through
  \<^verbatim>\<open>entry->vo\<close>) and does not consult it.
\<close>

record av_object =
  av_fd :: int
  av_format_modifier :: "64 word"

record av_plane =
  av_object_index :: nat
  av_offset :: int
  av_pitch :: int

record av_layer =
  av_format :: "32 word"
  av_nb_planes :: int
  av_planes :: "nat \<Rightarrow> av_plane"

record av_frame_descriptor =
  av_objects :: "nat \<Rightarrow> av_object"
  av_nb_layers :: int
  av_layers :: "nat \<Rightarrow> av_layer"

definition drmprime_add_planes :: "av_frame_descriptor \<Rightarrow> nat \<Rightarrow> params_request list" where
  "drmprime_add_planes avdesc layer_no =
     (let layer = av_layers avdesc layer_no
      in map (\<lambda>plane_no.
                let plane = av_planes layer plane_no;
                    object' = av_objects avdesc (av_object_index plane);
                    modifier = av_format_modifier object'
                in Params_add (av_fd object') plane_no
                     (word_of_int (av_offset plane)) (word_of_int (av_pitch plane))
                     (modifier_hi modifier) (modifier_lo modifier))
             [0..<nat (av_nb_planes layer)])"

definition drmprime_dmabuf_importer ::
  "vo_wayland_state \<Rightarrow> av_frame_descriptor \<Rightarrow> import_result" where
  "drmprime_dmabuf_importer wl avdesc =
     (let layer_nos = [0..<nat (av_nb_layers avdesc)]
      in \<lparr>dmabuf_imported = True,
          entry_drm_format =
            (if layer_nos = [] then None
             else Some (av_format (av_layers avdesc (last layer_nos)))),
          requests = concat (map (drmprime_add_planes avdesc) layer_nos),
          closed_fds = []\<rparr>)"

section \<open>Dispatching events\<close>

text \<open>
  The events of the compositor whose listeners are embedded above. libwayland looks
  the target proxy of an event up by its id and drops an event whose proxy does not
  exist any more, so a done event reaches \<^verbatim>\<open>frame_callback\<close> only for a callback
  in the store. The requests that a listener sends are not part of the state. The
  enter and motion events of the data device only send the accept request (see
  \<open>data_device_handle_enter\<close>) and are no events of their own here.
\<close>

datatype wl_event =
    Ev_callback_done nat
  | Ev_toplevel_configure int int "xdg_toplevel_state list"
  | Ev_data_device_data_offer nat
  | Ev_data_offer_offer string
  | Ev_data_device_leave
  | Ev_data_device_drop "int option"
  | Ev_data_device_selection

definition handle_event ::
  "(string \<Rightarrow> int) \<Rightarrow> vo_wayland_state \<Rightarrow> wl_event \<Rightarrow> vo_wayland_state option" where
  "handle_event score wl ev =
     (case ev of
        Ev_callback_done c \<Rightarrow>
          if c \<in> set (callbacks wl) then Some (frame_callback wl (Some c)) else Some wl
      | Ev_toplevel_configure width height states \<Rightarrow>
          handle_toplevel_config wl width height states
      | Ev_data_device_data_offer id' \<Rightarrow> Some (data_device_handle_data_offer wl id')
      | Ev_data_offer_offer mime_type \<Rightarrow> Some (data_offer_handle_offer score wl mime_type)
      | Ev_data_device_leave \<Rightarrow> Some (data_device_handle_leave wl)
      | Ev_data_device_drop pipefd \<Rightarrow> Some (data_device_handle_drop wl pipefd)
      | Ev_data_device_selection \<Rightarrow> Some (data_device_handle_selection wl))"

text \<open>
  \<^verbatim>\<open>vo_wayland_dispatch_events\<close> polls the display for at most \<open>timeout\<close>
  milliseconds and runs the listeners of the events that arrived; \<open>evs\<close> are these
  events, in order. \<^verbatim>\<open>wl_display_roundtrip\<close> dispatches in the same way.
\<close>

fun dispatch_pending ::
  "(string \<Rightarrow> int) \<Rightarrow> vo_wayland_state \<Rightarrow> wl_event list \<Rightarrow> vo_wayland_state option" where
  "dispatch_pending score wl [] = Some wl"
| "dispatch_pending score wl (ev # evs) =
     (case handle_event score wl ev of
        None \<Rightarrow> None
      | Some wl1 \<Rightarrow> dispatch_pending score wl1 evs)"

definition vo_wayland_dispatch_events ::
  "(string \<Rightarrow> int) \<Rightarrow> vo_wayland_state \<Rightarrow> nat \<Rightarrow> int \<Rightarrow> wl_event list
     \<Rightarrow> vo_wayland_state option" where
  "vo_wayland_dispatch_events score wl nfds timeout evs = dispatch_pending score wl evs"

definition wl_display_roundtrip ::
  "(string \<Rightarrow> int) \<Rightarrow> vo_wayland_state \<Rightarrow> wl_event list \<Rightarrow> vo_wayland_state option" where
  "wl_display_roundtrip score wl evs = dispatch_pending score wl evs"

section \<open>Waiting for a frame\<close>

text \<open>
  The vblank interval of \<^verbatim>\<open>vo_wayland_wait_frame\<close>, in microseconds, step by step as
  in the source, and the padding \<^verbatim>\<open>vblank_time += 0.05 * vblank_time\<close>, which is
  computed on doubles and stored in an \<^verbatim>\<open>int64_t\<close>. The constant \<^verbatim>\<open>1e6\<close> is a
  double as it stands; \<^verbatim>\<open>0.05\<close> is not, and stands for the double nearest to it.
\<close>

definition vblank_time_select :: "vo_wayland_state \<Rightarrow> int" where
  "vblank_time_select wl =
     (let v0 = 0;
          v1 = (if use_present wl then vsync_duration wl else v0);
          v2 = (if v1 \<le> 0 \<and> refresh_interval wl > 0 then refresh_interval wl else v1);
          v3 = (if v2 \<le> 0 \<and> refresh_rate wl > 0
                then double_to_int (double_div 1000000 (refresh_rate wl)) else v2);
          v4 = (if v3 \<le> 0 then double_to_int (double_div 1000000 (int_to_double 60)) else v3)
      in v4)"

definition vblank_time_padded :: "int \<Rightarrow> int" where
  "vblank_time_padded vblank_time =
     double_to_int (double_add (int_to_double vblank_time)
       (double_mult (round_double 0.05) (int_to_double vblank_time)))"

text \<open>
  What the wait observes of its environment: the clock reading \<open>now0\<close> taken for
  \<^verbatim>\<open>finish_time\<close>; one entry of \<open>polls\<close> for each evaluation of the loop condition
  with \<^verbatim>\<open>frame_wait\<close> set, holding the clock reading of the condition, the clock
  reading taken for \<^verbatim>\<open>poll_time\<close> and the events that the dispatch then delivers;
  whether the display is in error; and the events of the final round trip.
  The loop has no bound of its own: it ends when the callback has fired or the clock
  has passed the deadline. When the observations end before that, the result is
  \<open>None\<close>.
\<close>

record wait_env =
  now0 :: int
  polls :: "(int \<times> int \<times> wl_event list) list"
  display_error :: bool
  roundtrip_events :: "wl_event list"

definition poll_time_ms :: "int \<Rightarrow> int \<Rightarrow> int" where
  "poll_time_ms finish_time now =
     (let poll_time = double_to_int (c_ceil
            (double_div (int_to_double (finish_time - now)) (int_to_double 1000)))
      in if poll_time < 0 then 0 else poll_time)"

fun wait_loop ::
  "(string \<Rightarrow> int) \<Rightarrow> int \<Rightarrow> vo_wayland_state \<Rightarrow> (int \<times> int \<times> wl_event list) list
     \<Rightarrow> vo_wayland_state option" where
  "wait_loop score finish_time wl [] = (if frame_wait wl then None else Some wl)"
| "wait_loop score finish_time wl ((t_cond, t_poll, evs) # rest) =
     (if frame_wait wl \<and> finish_time > t_cond then
        (case vo_wayland_dispatch_events score wl 1 (poll_time_ms finish_time t_poll) evs of
           None \<Rightarrow> None
         | Some wl1 \<Rightarrow> wait_loop score finish_time wl1 rest)
      else Some wl)"

definition wait_frame_count :: "vo_wayland_state \<Rightarrow> vo_wayland_state" where
  "wait_frame_count wl =
     (if frame_wait wl then
        (if timeout_count wl > 1 then wl\<lparr>hidden := True\<rparr>
         else wl\<lparr>timeout_count := timeout_count wl + 1\<rparr>)
      else wl\<lparr>timeout_count := 0\<rparr>)"

definition wait_finish_time :: "vo_wayland_state \<Rightarrow> wait_env \<Rightarrow> int" where
  "wait_finish_time wl env = now0 env + vblank_time_padded (vblank_time_select wl)"

definition vo_wayland_wait_frame ::
  "(string \<Rightarrow> int) \<Rightarrow> wait_env \<Rightarrow> vo_wayland_state \<Rightarrow> vo_wayland_state option" where
  "vo_wayland_wait_frame score env wl =
     (let finish_time = wait_finish_time wl env
      in case wait_loop score finish_time wl (polls env) of
           None \<Rightarrow> None
         | Some wl1 \<Rightarrow>
             (case (if \<not> use_present wl1 \<and> \<not> display_error env
                    then wl_display_roundtrip score wl1 (roundtrip_events env)
                    else Some wl1) of
                None \<Rightarrow> None
              | Some wl2 \<Rightarrow> Some (wait_frame_count wl2)))"

text \<open>
  \<^verbatim>\<open>VOCTRL_CHECK_EVENTS\<close> of \<^verbatim>\<open>vo_wayland_control\<close>: \<open>events\<close> is the mask the caller
  passes in and \<open>r\<close> what the poll of \<^verbatim>\<open>check_dnd_fd\<close> finds; the result is the mask
  handed back and the state.
\<close>

definition voctrl_check_events ::
  "vo_wayland_state \<Rightarrow> poll_result \<Rightarrow> vo_event set \<Rightarrow> vo_event set \<times> vo_wayland_state" where
  "voctrl_check_events wl0 r events =
     (let wl = check_dnd_fd wl0 r;
          events1 = events \<union> pending_vo_events wl
      in if VO_EVENT_RESIZE \<in> events1
         then (insert VO_EVENT_EXPOSE events1,
               wl\<lparr>frame_wait := False, timeout_count := 0, hidden := False,
                  pending_vo_events := {}\<rparr>)
         else (events1, wl\<lparr>pending_vo_events := {}\<rparr>))"

text \<open>
  \<^verbatim>\<open>VOCTRL_SET_UNFS_WINDOW_SIZE\<close> of \<^verbatim>\<open>vo_wayland_control\<close>: \<open>s0\<close> and \<open>s1\<close> are the
  two ints of the argument, \<open>evs\<close> the events that \<^verbatim>\<open>wl_display_dispatch_pending\<close>
  finds after the request to leave the maximized state.
\<close>

definition voctrl_set_unfs_window_size ::
  "(string \<Rightarrow> int) \<Rightarrow> vo_wayland_state \<Rightarrow> int \<Rightarrow> int \<Rightarrow> wl_event list
     \<Rightarrow> vo_wayland_state option" where
  "voctrl_set_unfs_window_size score wl s0 s1 evs =
     (if scaling wl = 0 then None
      else
        let wl1 = wl\<lparr>window_size := \<lparr>x0 = 0, y0 = 0,
                                       x1 = c_div s0 (scaling wl), y1 = c_div s1 (scaling wl)\<rparr>\<rparr>;
            resized = (\<lambda>w. w\<lparr>geometry := window_size w,
                             pending_vo_events := insert VO_EVENT_RESIZE (pending_vo_events w)\<rparr>)
        in if fullscreen (vo_opts wl1) then Some wl1
           else if window_maximized (vo_opts wl1) then
             (case dispatch_pending score wl1 evs of
                None \<Rightarrow> None
              | Some wl2 \<Rightarrow>
                  if window_maximized (vo_opts wl2) then Some wl2 else Some (resized wl2))
           else Some (resized wl1))"

section \<open>Initialization\<close>

text \<open>
  \<^verbatim>\<open>vo_wayland_init\<close>. What the connection, the registry round trip and the option
  system answer is a parameter: whether the display connected, whether the input
  context, the \<^verbatim>\<open>xdg_wm_base\<close> global, an output and the xdg surface were obtained,
  whether the presentation global was bound and its clock accepted, whether the
  decoration manager was bound, the advertised formats, and the options. \<open>None\<close> is
  the return value \<^verbatim>\<open>false\<close>. The state is zero-initialised but for the fields that the
  initialiser names. \<^verbatim>\<open>create_xdg_surface\<close> sets \<^verbatim>\<open>wl->xdg_toplevel\<close> and fails when
  it is null. The function requests the first frame callback just before its
  final round trip, whose events are dispatched like any others.
\<close>

record init_env =
  display_connected :: bool
  input_created :: bool
  has_wm_base :: bool
  has_output :: bool
  xdg_surface_created :: bool
  has_presentation :: bool
  clock_accepted :: bool
  has_decoration_manager :: bool
  advertised_format_map :: "(32 word \<times> 64 word) list"
  advertised_drm_formats :: "32 word list"
  init_vo_opts :: mp_vo_opts
  init_opts :: wayland_opts

definition zero_rect :: mp_rect where
  "zero_rect = \<lparr>x0 = 0, y0 = 0, x1 = 0, y1 = 0\<rparr>"

definition wl_zero_state :: "init_env \<Rightarrow> vo_wayland_state" where
  "wl_zero_state env =
     \<lparr>vo_opts = init_vo_opts env, opts = init_opts env,
      frame_callback_ptr = None, callbacks = [], next_id = 0,
      geometry = zero_rect, vdparams = zero_rect, window_size = zero_rect,
      wl_gcd = 0, reduced_height = 0, reduced_width = 0,
      toplevel_width = 0, toplevel_height = 0,
      activated = False, has_keyboard_input = False, focused = False,
      frame_wait = False, hidden = False, state_change = False,
      toplevel_configured = False, pending_vo_events = {},
      scaling = 1, timeout_count = 0,
      format_map = [], drm_formats = [],
      presentation = False, feedback_ptr = None,
      vsync_duration = 0, refresh_interval = 0, refresh_rate = 0, use_present = False,
      requested_decoration = 0, xdg_toplevel = False,
      dnd_offer = None, offers = [], dnd_mime_type = None, dnd_mime_score = 0,
      dnd_fd = - 1\<rparr>"

definition vo_wayland_init :: "init_env \<Rightarrow> vo_wayland_state option" where
  "vo_wayland_init env =
     (let wl = wl_zero_state env
      in if \<not> display_connected env then None
         else if \<not> input_created env then None
         else
           let wl1 = wl\<lparr>presentation := has_presentation env,
                        use_present := (has_presentation env \<and> clock_accepted env),
                        format_map := advertised_format_map env,
                        drm_formats := advertised_drm_formats env\<rparr>
           in if \<not> has_wm_base env then None
              else if \<not> has_output env then None
              else if \<not> xdg_surface_created env then None
              else
                let wl1' = wl1\<lparr>xdg_toplevel := True\<rparr>;
                    wl2 = (if has_decoration_manager env
                           then request_decoration_mode wl1' (if border (vo_opts wl1') then 2 else 1)
                           else wl1'\<lparr>vo_opts := (vo_opts wl1')\<lparr>border := False\<rparr>\<rparr>);
                    (cb, wl3) = wl_surface_frame wl2
                in Some (wl3\<lparr>frame_callback_ptr := Some cb\<rparr>))"

text \<open>
  A concrete start for the examples below: the default options, a compositor that
  offers every global, and the format table of one linear ARGB format.
\<close>

definition example_init_env :: init_env where
  "example_init_env =
     \<lparr>display_connected = True, input_created = True, has_wm_base = True,
      has_output = True, xdg_surface_created = True, has_presentation = True,
      clock_accepted = True, has_decoration_manager = True,
      advertised_format_map = [(0x34325241, 0)], advertised_drm_formats = [],
      init_vo_opts = \<lparr>fullscreen = False, window_maximized = False,
                      window_minimized = False, keepaspect = True,
                      keepaspect_window = True, border = True\<rparr>,
      init_opts = wayland_conf_defaults\<rparr>"

definition example_state :: vo_wayland_state where
  "example_state =
     (wl_zero_state example_init_env)
       \<lparr>frame_callback_ptr := Some 0, callbacks := [0], next_id := 1,
        presentation := True, use_present := True,
        format_map := [(0x34325241, 0)], requested_decoration := 2, xdg_toplevel := True\<rparr>"


text \<open>The example state with a window of 800 by 600 pixels, as a reconfiguration leaves it.\<close>

definition example_window :: vo_wayland_state where
  "example_window =
     example_state
       \<lparr>geometry := \<lparr>x0 = 0, y0 = 0, x1 = 800, y1 = 600\<rparr>,
        vdparams := \<lparr>x0 = 0, y0 = 0, x1 = 800, y1 = 600\<rparr>,
        window_size := \<lparr>x0 = 0, y0 = 0, x1 = 800, y1 = 600\<rparr>,
        wl_gcd := 200, reduced_height := 3, reduced_width := 4\<rparr>"


definition example_score :: "string \<Rightarrow> int" where
  "example_score mime_type =
     (if mime_type = ''text/uri-list'' then 30
      else if mime_type = ''text/plain'' then 10
      else if mime_type = ''text/html'' then 5
      else - 1)"

text \<open>
  A decoded frame for the examples: NV12, 1920 pixels wide, two planes in one linear
  buffer object with descriptor 9; as a DRM frame descriptor and as an exported VA
  surface descriptor.
\<close>

definition example_nv12_frame :: av_frame_descriptor where
  "example_nv12_frame =
     \<lparr>av_objects = (\<lambda>i. \<lparr>av_fd = 9, av_format_modifier = 0\<rparr>),
      av_nb_layers = 1,
      av_layers = (\<lambda>i. \<lparr>av_format = 0x3231564E, av_nb_planes = 2,
                         av_planes = (\<lambda>p. if p = 0
                            then \<lparr>av_object_index = 0, av_offset = 0, av_pitch = 1920\<rparr>
                            else \<lparr>av_object_index = 0, av_offset = 2073600, av_pitch = 1920\<rparr>)\<rparr>)\<rparr>"

definition example_nv12_surface :: va_surface_descriptor where
  "example_nv12_surface =
     \<lparr>va_num_objects = 1,
      va_objects = (\<lambda>i. \<lparr>va_fd = 9, va_drm_format_modifier = 0\<rparr>),
      va_layers = (\<lambda>i. \<lparr>va_drm_format = 0x3231564E, va_num_planes = 2,
                         va_object_index = (\<lambda>p. 0),
                         va_offset = (\<lambda>p. if p = 0 then 0 else 2073600),
                         va_pitch = (\<lambda>p. 1920)\<rparr>)\<rparr>"

section \<open>Notions used to state the properties of the frame wait\<close>

text \<open>
  The specification's words about a wait. The deadline passes when one of the clock readings
  taken for the loop condition has reached \<open>finish_time\<close>; no frame callback fires
  when none of the delivered events is a done event; a wait times out when both hold.
  A configure event is within the handler's domain when its aspect-locked size, if the
  handler comes to compute it, is defined (\<open>event_defined\<close>; every other event is);
  a wait is when all the events delivered during it are (\<open>wait_defined\<close>).
\<close>

definition deadline_passes :: "int \<Rightarrow> (int \<times> int \<times> wl_event list) list \<Rightarrow> bool" where
  "deadline_passes finish_time ps = list_ex (\<lambda>(t_cond, t_poll, evs). finish_time \<le> t_cond) ps"

fun is_callback_done :: "wl_event \<Rightarrow> bool" where
  "is_callback_done (Ev_callback_done c) = True"
| "is_callback_done ev = False"

definition no_callback_done :: "wait_env \<Rightarrow> bool" where
  "no_callback_done env =
     (list_all (\<lambda>(t_cond, t_poll, evs). list_all (\<lambda>ev. \<not> is_callback_done ev) evs) (polls env)
      \<and> list_all (\<lambda>ev. \<not> is_callback_done ev) (roundtrip_events env))"

definition timed_out :: "vo_wayland_state \<Rightarrow> wait_env \<Rightarrow> bool" where
  "timed_out wl env =
     (no_callback_done env \<and> deadline_passes (wait_finish_time wl env) (polls env))"

fun event_defined :: "vo_wayland_state \<Rightarrow> wl_event \<Rightarrow> bool" where
  "event_defined wl (Ev_toplevel_configure width height states) =
     (keepaspect (vo_opts wl) \<longrightarrow> keepaspect_size wl width height \<noteq> None)"
| "event_defined wl ev = True"

definition wait_defined :: "vo_wayland_state \<Rightarrow> wait_env \<Rightarrow> bool" where
  "wait_defined wl env =
     (list_all (\<lambda>(t_cond, t_poll, evs). list_all (event_defined wl) evs) (polls env)
      \<and> list_all (event_defined wl) (roundtrip_events env))"

text \<open>
  The priority order in the specification's words: the candidates for the vblank interval, in
  order (a source that is not available counts as 0), and the first of them that is
  positive, with a fallback when none is.
\<close>

fun first_positive :: "int list \<Rightarrow> int \<Rightarrow> int" where
  "first_positive [] fallback = fallback"
| "first_positive (v # vs) fallback = (if v > 0 then v else first_positive vs fallback)"

definition vblank_candidates :: "vo_wayland_state \<Rightarrow> int list" where
  "vblank_candidates wl =
     [if use_present wl then vsync_duration wl else 0,
      refresh_interval wl,
      if refresh_rate wl > 0 then double_to_int (double_div 1000000 (refresh_rate wl)) else 0]"

text \<open>The fields that no listener changes and that the frame wait depends on.\<close>

definition stable_fields ::
  "vo_wayland_state \<Rightarrow> bool \<times> int \<times> int \<times> real \<times> int \<times> int \<times> bool \<times> bool \<times> int" where
  "stable_fields wl =
     (use_present wl, vsync_duration wl, refresh_interval wl, refresh_rate wl,
      reduced_width wl, reduced_height wl, keepaspect (vo_opts wl),
      keepaspect_window (vo_opts wl), timeout_count wl)"

text \<open>Consecutive calls of \<^verbatim>\<open>vo_wayland_wait_frame\<close>, one for each environment.\<close>

fun wait_frames ::
  "(string \<Rightarrow> int) \<Rightarrow> wait_env list \<Rightarrow> vo_wayland_state \<Rightarrow> vo_wayland_state option" where
  "wait_frames score [] wl = Some wl"
| "wait_frames score (env # envs) wl =
     (case vo_wayland_wait_frame score env wl of
        None \<Rightarrow> None
      | Some wl1 \<Rightarrow> wait_frames score envs wl1)"

text \<open>
  Examples: the example window with the frame wait armed; a wait during which nothing
  arrives and the clock, read at 0, is next read at 20000 microseconds; and a wait
  whose first poll delivers the done event of callback 0.
\<close>

definition example_armed :: vo_wayland_state where
  "example_armed = example_window\<lparr>frame_wait := True\<rparr>"

definition example_miss_env :: wait_env where
  "example_miss_env =
     \<lparr>now0 = 0, polls = [(0, 0, []), (20000, 20000, [])], display_error = False,
      roundtrip_events = []\<rparr>"

definition example_hit_env :: wait_env where
  "example_hit_env =
     \<lparr>now0 = 0, polls = [(0, 0, [Ev_callback_done 0])], display_error = False,
      roundtrip_events = []\<rparr>"

section \<open>Reachable states\<close>

text \<open>
  The states of a run: the state that \<^verbatim>\<open>vo_wayland_init\<close> returns, and from a state
  of a run the state after a dispatched event, after \<^verbatim>\<open>vo_wayland_check_visible\<close>,
  after \<^verbatim>\<open>vo_wayland_wait_frame\<close>, and after the two control requests embedded above.
  \<^verbatim>\<open>wl_surface_frame\<close> and \<^verbatim>\<open>wl_callback_destroy\<close> are called in
  \<^verbatim>\<open>frame_callback\<close>, \<^verbatim>\<open>vo_wayland_init\<close> and \<^verbatim>\<open>vo_wayland_uninit\<close> and nowhere else
  in the two files, so every other listener and request is covered by the last rule:
  a step that leaves the callback store and \<^verbatim>\<open>wl->frame_callback\<close> as they are.
\<close>

inductive reachable :: "(string \<Rightarrow> int) \<Rightarrow> vo_wayland_state \<Rightarrow> bool"
  for score :: "string \<Rightarrow> int" where
  reach_init: "vo_wayland_init env = Some wl \<Longrightarrow> reachable score wl"
| reach_event:
    "reachable score wl \<Longrightarrow> handle_event score wl ev = Some wl' \<Longrightarrow> reachable score wl'"
| reach_check_visible:
    "reachable score wl \<Longrightarrow> vo_wayland_check_visible wl = (render, wl')
       \<Longrightarrow> reachable score wl'"
| reach_wait_frame:
    "reachable score wl \<Longrightarrow> vo_wayland_wait_frame score env wl = Some wl'
       \<Longrightarrow> reachable score wl'"
| reach_check_events:
    "reachable score wl \<Longrightarrow> voctrl_check_events wl r events = (events', wl')
       \<Longrightarrow> reachable score wl'"
| reach_set_unfs:
    "reachable score wl \<Longrightarrow> voctrl_set_unfs_window_size score wl s0 s1 evs = Some wl'
       \<Longrightarrow> reachable score wl'"
| reach_other:
    "reachable score wl \<Longrightarrow> callbacks wl' = callbacks wl
       \<Longrightarrow> frame_callback_ptr wl' = frame_callback_ptr wl \<Longrightarrow> reachable score wl'"

definition one_callback :: "vo_wayland_state \<Rightarrow> bool" where
  "one_callback wl =
     (length (callbacks wl) = 1 \<and> frame_callback_ptr wl = Some (hd (callbacks wl)))"

section \<open>The window in a run\<close>

text \<open>
  \<^verbatim>\<open>toggle_fullscreen\<close> and \<^verbatim>\<open>toggle_maximized\<close> note the state change and send
  the request that the option asks for to the compositor.
\<close>

definition toggle_fullscreen :: "vo_wayland_state \<Rightarrow> vo_wayland_state" where
  "toggle_fullscreen wl = (if \<not> xdg_toplevel wl then wl else wl\<lparr>state_change := True\<rparr>)"

definition toggle_maximized :: "vo_wayland_state \<Rightarrow> vo_wayland_state" where
  "toggle_maximized wl = (if \<not> xdg_toplevel wl then wl else wl\<lparr>state_change := True\<rparr>)"

text \<open>
  The name of the driver, \<^verbatim>\<open>.name\<close> of \<^verbatim>\<open>video_out_dmabuf_wayland\<close>.
\<close>

definition vo_dmabuf_wayland_name :: string where
  "vo_dmabuf_wayland_name = ''dmabuf-wayland''"

text \<open>
  \<^verbatim>\<open>set_surface_scaling\<close>. The name of the driver, the option
  \<^verbatim>\<open>hidpi_window_scale\<close> and the scale of the current output (\<open>None\<close> when there is
  no current output) are parameters. An assignment \<^verbatim>\<open>x *= factor\<close> to an \<^verbatim>\<open>int\<close>
  multiplies on doubles and converts the product back.
\<close>

definition scale_int :: "int \<Rightarrow> real \<Rightarrow> int option" where
  "scale_int v factor = double_to_int32 (double_mult (int_to_double v) factor)"

definition set_surface_scaling ::
  "vo_wayland_state \<Rightarrow> string \<Rightarrow> bool \<Rightarrow> int option \<Rightarrow> vo_wayland_state option" where
  "set_surface_scaling wl driver_name hidpi_window_scale output_scale =
     (let dmabuf_wayland = (driver_name = ''dmabuf-wayland'');
          old_scale = scaling wl
      in case (if hidpi_window_scale \<and> \<not> dmabuf_wayland then output_scale else Some 1) of
           None \<Rightarrow> None
         | Some new_scale \<Rightarrow>
             if new_scale = 0 then None
             else
               let wl1 = wl\<lparr>scaling := new_scale\<rparr>;
                   factor = double_div (int_to_double old_scale) (int_to_double new_scale)
               in case (scale_int (x1 (vdparams wl1)) factor,
                        scale_int (y1 (vdparams wl1)) factor,
                        scale_int (x1 (window_size wl1)) factor,
                        scale_int (y1 (window_size wl1)) factor) of
                    (Some vx, Some vy, Some wx, Some wy) \<Rightarrow>
                      Some (wl1\<lparr>vdparams := (vdparams wl1)\<lparr>x1 := vx, y1 := vy\<rparr>,
                               window_size := (window_size wl1)\<lparr>x1 := wx, y1 := wy\<rparr>\<rparr>)
                  | _ \<Rightarrow> None)"

text \<open>
  \<^verbatim>\<open>set_window_bounds\<close>; the bounds \<^verbatim>\<open>wl->bounded_width\<close> and
  \<^verbatim>\<open>wl->bounded_height\<close>, which the compositor sent last, are parameters.
\<close>

definition set_window_bounds :: "vo_wayland_state \<Rightarrow> int \<Rightarrow> int \<Rightarrow> vo_wayland_state" where
  "set_window_bounds wl bounded_width bounded_height =
     (let wl1 = (if bounded_width \<noteq> 0 \<and> bounded_width < x1 (window_size wl)
                 then wl\<lparr>window_size := (window_size wl)\<lparr>x1 := bounded_width\<rparr>\<rparr> else wl)
      in if bounded_height \<noteq> 0 \<and> bounded_height < y1 (window_size wl1)
         then wl1\<lparr>window_size := (window_size wl1)\<lparr>y1 := bounded_height\<rparr>\<rparr> else wl1)"

text \<open>
  What the window code reads outside the state kept here: whether there is a current
  output, whether \<^verbatim>\<open>find_output\<close> finds one, the scale of that output, the option
  \<^verbatim>\<open>hidpi_window_scale\<close>, the name of the driver, the display size that
  \<^verbatim>\<open>set_geometry\<close> takes, the bounds of the compositor, and whether the toplevel
  decoration exists.
\<close>

record window_env =
  we_current_output :: bool
  we_output_found :: bool
  we_output_scale :: int
  we_hidpi_window_scale :: bool
  we_driver_name :: string
  we_dwidth :: int
  we_dheight :: int
  we_bounded_width :: int
  we_bounded_height :: int
  we_has_decoration :: bool

text \<open>
  \<^verbatim>\<open>vo_wayland_reconfig\<close>. \<open>None\<close> is the return value \<^verbatim>\<open>false\<close> or undefined
  behaviour. \<^verbatim>\<open>do_minimize\<close> only sends a request.
\<close>

definition vo_wayland_reconfig :: "window_env \<Rightarrow> vo_wayland_state \<Rightarrow> vo_wayland_state option" where
  "vo_wayland_reconfig env wl =
     (case (if \<not> we_current_output env then
              (if \<not> we_output_found env then None
               else
                 case set_surface_scaling wl (we_driver_name env) (we_hidpi_window_scale env)
                        (Some (we_output_scale env)) of
                   None \<Rightarrow> None
                 | Some w \<Rightarrow>
                     Some (w\<lparr>pending_vo_events := insert VO_EVENT_DPI (pending_vo_events w)\<rparr>))
            else Some wl) of
        None \<Rightarrow> None
      | Some wl1 \<Rightarrow>
          (case set_geometry wl1 (we_dwidth env) (we_dheight env) of
             None \<Rightarrow> None
           | Some wl2 \<Rightarrow>
               let wl3 = wl2\<lparr>window_size := vdparams wl2\<rparr>;
                   wl4 = (if configure_bounds (opts wl3)
                          then set_window_bounds wl3 (we_bounded_width env) (we_bounded_height env)
                          else wl3);
                   wl5 = (if (\<not> fullscreen (vo_opts wl4) \<and> \<not> window_maximized (vo_opts wl4))
                             \<or> mp_rect_w (geometry wl4) = 0 \<or> mp_rect_h (geometry wl4) = 0
                          then wl4\<lparr>geometry := window_size wl4\<rparr> else wl4);
                   wl6 = (if fullscreen (vo_opts wl5) then toggle_fullscreen wl5 else wl5);
                   wl7 = (if window_maximized (vo_opts wl6) then toggle_maximized wl6 else wl6)
               in Some (wl7\<lparr>pending_vo_events :=
                                insert VO_EVENT_RESIZE (pending_vo_events wl7)\<rparr>)))"

text \<open>
  The options whose change \<^verbatim>\<open>VOCTRL_VO_OPTS_CHANGED\<close> tells apart, with the new
  value of those that the state keeps; \<open>Opt_geometry\<close> stands for \<^verbatim>\<open>geometry\<close>,
  \<^verbatim>\<open>autofit\<close>, \<^verbatim>\<open>autofit_smaller\<close> and \<^verbatim>\<open>autofit_larger\<close>.
\<close>

datatype changed_option =
    Opt_appid
  | Opt_border bool
  | Opt_fullscreen bool
  | Opt_hidpi_window_scale bool
  | Opt_window_maximized bool
  | Opt_window_minimized bool
  | Opt_geometry
  | Opt_keepaspect bool
  | Opt_keepaspect_window bool
  | Opt_other

text \<open>
  Modelled from the spec: \<^verbatim>\<open>m_config_cache_get_next_changed\<close>, which is not part of
  the two files. Changes to player-wide options are observed via a generic
  change-notification mechanism: each call hands over the next changed option, whose
  new value is then in \<^verbatim>\<open>wl->vo_opts\<close>.
\<close>

fun m_config_cache_get_next_changed :: "changed_option \<Rightarrow> mp_vo_opts \<Rightarrow> mp_vo_opts" where
  "m_config_cache_get_next_changed (Opt_border b) vo = vo\<lparr>border := b\<rparr>"
| "m_config_cache_get_next_changed (Opt_fullscreen b) vo = vo\<lparr>fullscreen := b\<rparr>"
| "m_config_cache_get_next_changed (Opt_window_maximized b) vo = vo\<lparr>window_maximized := b\<rparr>"
| "m_config_cache_get_next_changed (Opt_window_minimized b) vo = vo\<lparr>window_minimized := b\<rparr>"
| "m_config_cache_get_next_changed (Opt_keepaspect b) vo = vo\<lparr>keepaspect := b\<rparr>"
| "m_config_cache_get_next_changed (Opt_keepaspect_window b) vo = vo\<lparr>keepaspect_window := b\<rparr>"
| "m_config_cache_get_next_changed opt vo = vo"

text \<open>
  \<^verbatim>\<open>VOCTRL_VO_OPTS_CHANGED\<close> of \<^verbatim>\<open>vo_wayland_control\<close>: one round of the loop, and
  the loop over the options that changed. \<^verbatim>\<open>update_app_id\<close> and \<^verbatim>\<open>do_minimize\<close>
  only send requests. Decoration mode 2 is the server side, 1 the client side.
\<close>

definition vo_opts_changed_round ::
  "window_env \<Rightarrow> vo_wayland_state \<Rightarrow> changed_option \<Rightarrow> vo_wayland_state option" where
  "vo_opts_changed_round env wl0 opt =
     (let wl = wl0\<lparr>vo_opts := m_config_cache_get_next_changed opt (vo_opts wl0)\<rparr>
      in case opt of
           Opt_border b \<Rightarrow>
             if we_has_decoration env
             then Some (request_decoration_mode
                          (wl\<lparr>vo_opts := (vo_opts wl)\<lparr>border := \<not> border (vo_opts wl)\<rparr>\<rparr>)
                          (if border (vo_opts wl) then 2 else 1))
             else Some (wl\<lparr>vo_opts := (vo_opts wl)\<lparr>border := False\<rparr>\<rparr>)
         | Opt_fullscreen b \<Rightarrow> Some (toggle_fullscreen wl)
         | Opt_hidpi_window_scale b \<Rightarrow>
             set_surface_scaling wl (we_driver_name env) b
               (if we_current_output env then Some (we_output_scale env) else None)
         | Opt_window_maximized b \<Rightarrow> Some (toggle_maximized wl)
         | Opt_geometry \<Rightarrow>
             if we_current_output env then
               (case set_geometry wl (we_dwidth env) (we_dheight env) of
                  None \<Rightarrow> None
                | Some wl1 \<Rightarrow>
                    let wl2 = wl1\<lparr>window_size := vdparams wl1\<rparr>;
                        wl3 = (if \<not> fullscreen (vo_opts wl2) \<and> \<not> window_maximized (vo_opts wl2)
                               then wl2\<lparr>geometry := window_size wl2\<rparr> else wl2)
                    in Some (wl3\<lparr>pending_vo_events :=
                                     insert VO_EVENT_RESIZE (pending_vo_events wl3)\<rparr>))
             else Some wl
         | _ \<Rightarrow> Some wl)"

fun voctrl_vo_opts_changed ::
  "window_env \<Rightarrow> vo_wayland_state \<Rightarrow> changed_option list \<Rightarrow> vo_wayland_state option" where
  "voctrl_vo_opts_changed env wl [] = Some wl"
| "voctrl_vo_opts_changed env wl (opt # rest) =
     (case vo_opts_changed_round env wl opt of
        None \<Rightarrow> None
      | Some wl1 \<Rightarrow> voctrl_vo_opts_changed env wl1 rest)"

text \<open>
  The fields that decide what a configure event does to the geometry, and the states
  of a run of the dmabuf-wayland output: the state that \<^verbatim>\<open>vo_wayland_init\<close> returns,
  and from a state of a run the state after \<^verbatim>\<open>vo_wayland_reconfig\<close>, after a
  dispatched event, after the control requests embedded above, after
  \<^verbatim>\<open>vo_wayland_check_visible\<close> and after \<^verbatim>\<open>vo_wayland_wait_frame\<close>. The listeners
  \<^verbatim>\<open>output_handle_done\<close> and \<^verbatim>\<open>surface_handle_enter\<close> call
  \<^verbatim>\<open>set_surface_scaling\<close> and, of the fields below, change nothing else. The
  geometry, the windowed size, \<^verbatim>\<open>state_change\<close>, the scaling, the fullscreen and
  maximized options and \<^verbatim>\<open>xdg_toplevel\<close> are written in these functions and nowhere
  else in the two files before \<^verbatim>\<open>vo_wayland_uninit\<close>, so every other listener and
  request is covered by the last rule.
\<close>

definition window_fields ::
  "vo_wayland_state \<Rightarrow> mp_rect \<times> mp_rect \<times> bool \<times> int \<times> bool \<times> bool \<times> bool" where
  "window_fields wl =
     (geometry wl, window_size wl, state_change wl, scaling wl, fullscreen (vo_opts wl),
      window_maximized (vo_opts wl), xdg_toplevel wl)"

inductive window_run :: "(string \<Rightarrow> int) \<Rightarrow> vo_wayland_state \<Rightarrow> bool"
  for score :: "string \<Rightarrow> int" where
  run_init: "vo_wayland_init env = Some wl \<Longrightarrow> window_run score wl"
| run_reconfig:
    "window_run score wl \<Longrightarrow> we_driver_name wenv = vo_dmabuf_wayland_name
       \<Longrightarrow> vo_wayland_reconfig wenv wl = Some wl' \<Longrightarrow> window_run score wl'"
| run_event:
    "window_run score wl \<Longrightarrow> handle_event score wl ev = Some wl' \<Longrightarrow> window_run score wl'"
| run_scaling:
    "window_run score wl
       \<Longrightarrow> set_surface_scaling wl vo_dmabuf_wayland_name hidpi scale = Some wl1
       \<Longrightarrow> window_fields wl' = window_fields wl1 \<Longrightarrow> window_run score wl'"
| run_opts_changed:
    "window_run score wl \<Longrightarrow> we_driver_name wenv = vo_dmabuf_wayland_name
       \<Longrightarrow> voctrl_vo_opts_changed wenv wl changed = Some wl' \<Longrightarrow> window_run score wl'"
| run_set_unfs:
    "window_run score wl \<Longrightarrow> voctrl_set_unfs_window_size score wl s0 s1 evs = Some wl'
       \<Longrightarrow> window_run score wl'"
| run_check_events:
    "window_run score wl \<Longrightarrow> voctrl_check_events wl r events = (events', wl')
       \<Longrightarrow> window_run score wl'"
| run_check_visible:
    "window_run score wl \<Longrightarrow> vo_wayland_check_visible wl = (render, wl')
       \<Longrightarrow> window_run score wl'"
| run_wait_frame:
    "window_run score wl \<Longrightarrow> vo_wayland_wait_frame score env' wl = Some wl'
       \<Longrightarrow> window_run score wl'"
| run_other:
    "window_run score wl \<Longrightarrow> window_fields wl' = window_fields wl \<Longrightarrow> window_run score wl'"

text \<open>
  What holds of the window fields throughout a run: the scaling is 1, the toplevel
  exists, and a window that is neither fullscreen nor maximized and has no state change
  pending has its windowed size as its geometry.
\<close>

definition window_inv :: "vo_wayland_state \<Rightarrow> bool" where
  "window_inv wl =
     (scaling wl = 1 \<and> xdg_toplevel wl
      \<and> (\<not> fullscreen (vo_opts wl) \<and> \<not> window_maximized (vo_opts wl) \<and> \<not> state_change wl
           \<longrightarrow> geometry wl = window_size wl))"

text \<open>
  The reconfiguration that leads from the example state to the example window.
\<close>

definition example_window_env :: window_env where
  "example_window_env =
     \<lparr>we_current_output = False, we_output_found = True, we_output_scale = 1,
      we_hidpi_window_scale = True, we_driver_name = vo_dmabuf_wayland_name,
      we_dwidth = 800, we_dheight = 600, we_bounded_width = 0, we_bounded_height = 0,
      we_has_decoration = True\<rparr>"

section \<open>Properties of double-precision arithmetic\<close>

lemma exponent_bounds:
  assumes "x \<noteq> 0"
  shows "2 powi double_exponent x \<le> \<bar>x\<bar>" and "\<bar>x\<bar> < 2 powi (double_exponent x + 1)"
proof -
  show "2 powi double_exponent x \<le> \<bar>x\<bar>"
  proof (cases "1 \<le> \<bar>x\<bar>")
    case True
    then have p: "0 < \<lfloor>\<bar>x\<bar>\<rfloor>" by linarith
    have b: "0 \<le> bitlen \<lfloor>\<bar>x\<bar>\<rfloor> - 1"
      using p bitlen_eq_zero_iff [of "\<lfloor>\<bar>x\<bar>\<rfloor>"] bitlen_nonneg [of "\<lfloor>\<bar>x\<bar>\<rfloor>"] by linarith
    have "(2::int) ^ nat (bitlen \<lfloor>\<bar>x\<bar>\<rfloor> - 1) \<le> \<lfloor>\<bar>x\<bar>\<rfloor>"
      using bitlen_bounds [OF p] by simp
    then have "(2::real) ^ nat (bitlen \<lfloor>\<bar>x\<bar>\<rfloor> - 1) \<le> of_int \<lfloor>\<bar>x\<bar>\<rfloor>"
      by (metis of_int_le_iff of_int_numeral of_int_power)
    also have "\<dots> \<le> \<bar>x\<bar>" by simp
    finally show ?thesis
      using True b by (simp add: double_exponent_def power_int_nonneg_exp)
  next
    case False
    let ?n = "\<lceil>1 / \<bar>x\<bar>\<rceil>"
    have x: "0 < \<bar>x\<bar>" "\<bar>x\<bar> < 1" using assms False by simp_all
    have "1 < 1 / \<bar>x\<bar>" using x by simp
    then have n: "2 \<le> ?n" by linarith
    then have p: "0 < ?n - 1" by simp
    have "?n - 1 < 2 ^ nat (bitlen (?n - 1))"
      using bitlen_bounds [OF p] by simp
    then have "?n \<le> 2 ^ nat (bitlen (?n - 1))" by simp
    then have "of_int ?n \<le> (2::real) ^ nat (bitlen (?n - 1))"
      by (metis of_int_le_iff of_int_numeral of_int_power)
    moreover have "1 / \<bar>x\<bar> \<le> of_int ?n" by simp
    ultimately have "1 / \<bar>x\<bar> \<le> (2::real) ^ nat (bitlen (?n - 1))" by linarith
    then have "1 / (2::real) ^ nat (bitlen (?n - 1)) \<le> \<bar>x\<bar>"
      using x by (simp add: field_simps)
    moreover have "2 powi (- bitlen (?n - 1)) = 1 / (2::real) ^ nat (bitlen (?n - 1))"
      using bitlen_nonneg [of "?n - 1"]
      by (simp add: power_int_minus_divide power_int_nonneg_exp)
    ultimately show ?thesis
      using False by (simp add: double_exponent_def)
  qed
  show "\<bar>x\<bar> < 2 powi (double_exponent x + 1)"
  proof (cases "1 \<le> \<bar>x\<bar>")
    case True
    then have p: "0 < \<lfloor>\<bar>x\<bar>\<rfloor>" by linarith
    have "\<lfloor>\<bar>x\<bar>\<rfloor> < 2 ^ nat (bitlen \<lfloor>\<bar>x\<bar>\<rfloor>)"
      using bitlen_bounds [OF p] by simp
    then have "\<lfloor>\<bar>x\<bar>\<rfloor> + 1 \<le> 2 ^ nat (bitlen \<lfloor>\<bar>x\<bar>\<rfloor>)" by simp
    then have "of_int (\<lfloor>\<bar>x\<bar>\<rfloor> + 1) \<le> (2::real) ^ nat (bitlen \<lfloor>\<bar>x\<bar>\<rfloor>)"
      by (metis of_int_le_iff of_int_numeral of_int_power)
    moreover have "\<bar>x\<bar> < of_int (\<lfloor>\<bar>x\<bar>\<rfloor> + 1)" by linarith
    ultimately have "\<bar>x\<bar> < (2::real) ^ nat (bitlen \<lfloor>\<bar>x\<bar>\<rfloor>)" by linarith
    then show ?thesis
      using True bitlen_nonneg [of "\<lfloor>\<bar>x\<bar>\<rfloor>"]
      by (simp add: double_exponent_def power_int_nonneg_exp)
  next
    case False
    let ?n = "\<lceil>1 / \<bar>x\<bar>\<rceil>"
    let ?b = "bitlen (?n - 1)"
    have x: "0 < \<bar>x\<bar>" "\<bar>x\<bar> < 1" using assms False by simp_all
    have "1 < 1 / \<bar>x\<bar>" using x by simp
    then have n: "2 \<le> ?n" by linarith
    then have p: "0 < ?n - 1" by simp
    have b: "1 \<le> ?b"
      using p bitlen_eq_zero_iff [of "?n - 1"] bitlen_nonneg [of "?n - 1"] by linarith
    have "2 ^ nat (?b - 1) \<le> ?n - 1"
      using bitlen_bounds [OF p] by simp
    then have "of_int (2 ^ nat (?b - 1)) \<le> (of_int (?n - 1) :: real)"
      by (simp only: of_int_le_iff)
    then have "(2::real) ^ nat (?b - 1) \<le> of_int ?n - 1" by simp
    moreover have "of_int ?n - 1 < 1 / \<bar>x\<bar>" by linarith
    ultimately have "(2::real) ^ nat (?b - 1) < 1 / \<bar>x\<bar>" by linarith
    then have "\<bar>x\<bar> < 1 / (2::real) ^ nat (?b - 1)"
      using x by (simp add: field_simps)
    moreover have "2 powi (- ?b + 1) = 1 / (2::real) ^ nat (?b - 1)"
    proof -
      have "- ?b + 1 = - (?b - 1)" by simp
      then show ?thesis
        using b by (simp only: power_int_minus_divide) (simp add: power_int_nonneg_exp)
    qed
    ultimately show ?thesis
      using False by (simp add: double_exponent_def)
  qed
qed

lemma ulp_pos: "0 < double_ulp x"
  by (simp add: double_ulp_def)

lemma ulp_le:
  assumes "x \<noteq> 0"
  shows "double_ulp x \<le> \<bar>x\<bar> / 2 ^ 52"
proof -
  have "double_ulp x = 2 powi double_exponent x / 2 ^ 52"
    by (simp add: double_ulp_def power_int_diff)
  then show ?thesis
    using exponent_bounds(1) [OF assms] by (simp add: divide_right_mono)
qed

lemma ulp_gt:
  assumes "x \<noteq> 0"
  shows "\<bar>x\<bar> < 2 ^ 53 * double_ulp x"
proof -
  have "(2::real) powi ((double_exponent x - 52) + 53)
      = 2 powi (double_exponent x - 52) * 2 powi 53"
    by (rule power_int_add) simp
  moreover have "(double_exponent x - 52) + 53 = double_exponent x + 1" by simp
  ultimately have "(2::real) powi (double_exponent x + 1) = 2 ^ 53 * double_ulp x"
    by (simp add: double_ulp_def)
  then show ?thesis
    using exponent_bounds(2) [OF assms] by simp
qed

lemma rhe_err: "\<bar>of_int (round_half_even y) - y\<bar> \<le> 1 / 2"
proof -
  have "of_int \<lfloor>y\<rfloor> \<le> y" "y < of_int \<lfloor>y\<rfloor> + 1" by linarith+
  then show ?thesis
    by (auto simp: round_half_even_def Let_def)
qed

lemma rhe_near:
  assumes "\<bar>d\<bar> < 1 / 2"
  shows "round_half_even (of_int j + d) = j"
proof (cases "0 \<le> d")
  case True
  then have "\<lfloor>of_int j + d\<rfloor> = j" using assms by (intro floor_unique) simp_all
  then show ?thesis using assms True by (simp add: round_half_even_def Let_def)
next
  case False
  then have f: "\<lfloor>of_int j + d\<rfloor> = j - 1" using assms by (intro floor_unique) simp_all
  show ?thesis using assms False by (simp add: round_half_even_def Let_def f)
qed

lemma rd_err: "\<bar>round_double x - x\<bar> \<le> double_ulp x / 2"
proof (cases "x = 0")
  case True
  then show ?thesis using ulp_pos [of x] by (simp add: round_double_def)
next
  case False
  let ?u = "double_ulp x"
  have u: "0 < ?u" by (rule ulp_pos)
  have "round_double x - x = (of_int (round_half_even (x / ?u)) - x / ?u) * ?u"
    using False u by (simp add: round_double_def field_simps)
  then have "\<bar>round_double x - x\<bar> = \<bar>of_int (round_half_even (x / ?u)) - x / ?u\<bar> * ?u"
    using u by (simp add: abs_mult)
  also have "\<dots> \<le> (1 / 2) * ?u"
    using rhe_err [of "x / ?u"] u by (intro mult_right_mono) simp_all
  finally show ?thesis by simp
qed

lemma rd_rel: "\<bar>round_double x - x\<bar> \<le> \<bar>x\<bar> / 2 ^ 53"
proof (cases "x = 0")
  case True
  then show ?thesis by (simp add: round_double_def)
next
  case False
  have "\<bar>round_double x - x\<bar> \<le> double_ulp x / 2" by (rule rd_err)
  also have "\<dots> \<le> (\<bar>x\<bar> / 2 ^ 52) / 2"
    using ulp_le [OF False] by simp
  finally show ?thesis by simp
qed

lemma rd_near:
  assumes "x \<noteq> 0" and "\<bar>x - of_int j * double_ulp x\<bar> < double_ulp x / 2"
  shows "round_double x = of_int j * double_ulp x"
proof -
  let ?u = "double_ulp x"
  have u: "0 < ?u" by (rule ulp_pos)
  define d where "d = x / ?u - of_int j"
  have "d * ?u = x - of_int j * ?u"
    using u by (simp add: d_def field_simps)
  then have "\<bar>d * ?u\<bar> < ?u / 2"
    using assms(2) by simp
  then have "\<bar>d\<bar> * ?u < (1 / 2) * ?u"
    using u by (simp add: abs_mult)
  then have "\<bar>d\<bar> < 1 / 2"
    using u by (simp only: mult_less_cancel_right_pos)
  then have "round_half_even (of_int j + d) = j" by (rule rhe_near)
  moreover have "of_int j + d = x / ?u" by (simp add: d_def)
  ultimately show ?thesis
    using assms(1) by (simp add: round_double_def)
qed

lemma rd_nonneg:
  assumes "0 \<le> x"
  shows "0 \<le> round_double x"
proof -
  have "0 \<le> x / double_ulp x"
    using assms ulp_pos [of x] by simp
  then have "0 \<le> \<lfloor>x / double_ulp x\<rfloor>" by simp
  then have "0 \<le> round_half_even (x / double_ulp x)"
    by (simp add: round_half_even_def Let_def)
  then show ?thesis
    using ulp_pos [of x] by (simp add: round_double_def)
qed

lemma ulp_int:
  assumes "x \<noteq> 0" and "\<bar>x\<bar> < 2 ^ 53"
  shows "\<exists>k::nat. double_ulp x * 2 ^ k = 1"
proof -
  have "2 powi double_exponent x < (2::real) powi 53"
    using exponent_bounds(1) [OF assms(1)] assms(2) by simp
  then have e: "double_exponent x < 53"
    by (rule power_int_le_imp_less_exp [rotated]) simp_all
  then have "double_ulp x * 2 ^ nat (52 - double_exponent x) = 2 powi (double_exponent x - 52) * 2 powi (52 - double_exponent x)"
    by (simp add: double_ulp_def power_int_nonneg_exp)
  also have "\<dots> = 2 powi ((double_exponent x - 52) + (52 - double_exponent x))"
    by (rule power_int_add [symmetric]) simp
  also have "\<dots> = 1" by simp
  finally show ?thesis by auto
qed

lemma rd_int:
  assumes "\<bar>n\<bar> < 2 ^ 53"
  shows "round_double (of_int n) = of_int n"
proof (cases "n = 0")
  case True
  then show ?thesis by (simp add: round_double_def)
next
  case False
  let ?x = "of_int n :: real"
  have x: "?x \<noteq> 0" using False by simp
  have "\<bar>?x\<bar> < 2 ^ 53"
    using assms by (metis of_int_abs of_int_less_iff of_int_numeral of_int_power)
  then obtain k :: nat where k: "double_ulp ?x * 2 ^ k = 1"
    using ulp_int [OF x] by blast
  have "of_int (n * 2 ^ k) * double_ulp ?x = ?x * (double_ulp ?x * 2 ^ k)"
    by simp
  then have e: "of_int (n * 2 ^ k) * double_ulp ?x = ?x"
    by (simp only: k mult_1_right)
  have "\<bar>?x - of_int (n * 2 ^ k) * double_ulp ?x\<bar> < double_ulp ?x / 2"
    unfolding e using ulp_pos [of ?x] by simp
  then have "round_double ?x = of_int (n * 2 ^ k) * double_ulp ?x"
    by (rule rd_near [OF x])
  then show ?thesis by (simp only: e)
qed

lemma rd_twentieth: "round_double (1 / 20) = (1 + 1 / 2 ^ 54) / 20"
  by code_simp

lemma int_to_double_exact: "\<bar>n\<bar> < 2 ^ 53 \<Longrightarrow> int_to_double n = of_int n"
  by (simp add: int_to_double_def rd_int)

lemma double_to_int_of_int: "double_to_int (of_int n) = n"
  by (simp add: double_to_int_def)

lemma double_to_int_ceil: "double_to_int (c_ceil d) = \<lceil>d\<rceil>"
  by (simp only: c_ceil_def double_to_int_of_int)




lemma double_to_int32_ceil:
  "double_to_int32 (c_ceil d) = (if - (2 ^ 31) \<le> \<lceil>d\<rceil> \<and> \<lceil>d\<rceil> < 2 ^ 31 then Some \<lceil>d\<rceil> else None)"
  by (simp only: double_to_int32_def double_to_int_ceil Let_def)

lemma rd_scaled:
  assumes "0 < m" and "m < 2 ^ 52"
  shows "round_double (of_int m * (1 + 1 / 2 ^ 54)) = of_int m"
proof -
  define x :: real where "x = of_int m * (1 + 1 / 2 ^ 54)"
  have m: "0 < (of_int m :: real)" "(of_int m :: real) < 2 ^ 52"
    using assms by (simp, metis of_int_less_iff of_int_numeral of_int_power)
  have x: "of_int m < x" "x < 2 ^ 53" "x - of_int m = of_int m / 2 ^ 54"
    using m by (simp_all add: x_def algebra_simps)
  have x0: "x \<noteq> 0" using x(1) m(1) by simp
  have "\<bar>x\<bar> < 2 ^ 53" using x m by simp
  then obtain k :: nat where k: "double_ulp x * 2 ^ k = 1"
    using ulp_int [OF x0] by blast
  have "of_int (m * 2 ^ k) * double_ulp x = of_int m * (double_ulp x * 2 ^ k)"
    by simp
  then have e: "of_int (m * 2 ^ k) * double_ulp x = of_int m"
    by (simp only: k mult_1_right)
  have "of_int m < 2 ^ 53 * double_ulp x"
    using ulp_gt [OF x0] x(1) m(1) by simp
  then have "of_int m / 2 ^ 54 < double_ulp x / 2" by simp
  then have "\<bar>x - of_int (m * 2 ^ k) * double_ulp x\<bar> < double_ulp x / 2"
    unfolding e using x(1,3) by simp
  then have "round_double x = of_int (m * 2 ^ k) * double_ulp x"
    by (rule rd_near [OF x0])
  then have "round_double x = of_int m" by (simp only: e)
  then show ?thesis by (simp only: x_def)
qed

lemma rd_numeral: "numeral k < (2::int) ^ 53 \<Longrightarrow> round_double (numeral k) = numeral k"
  using rd_int [of "numeral k"] by simp

lemma int_to_double_numeral:
  "numeral k < (2::int) ^ 53 \<Longrightarrow> int_to_double (numeral k) = numeral k"
  by (simp add: int_to_double_def rd_numeral)

section \<open>Properties of the greatest common divisor helper\<close>

lemma gcd_remainder_pos:
  assumes "0 < a" "0 < b" "a < 2 ^ 31" "b < 2 ^ 31"
  shows "gcd_remainder a b = gcd_larger a b mod gcd_smaller a b"
proof -
  define L where "L = gcd_larger a b"
  define S where "S = gcd_smaller a b"
  define q where "q = L div S"
  have l: "0 < L" "L < 2 ^ 31" and s: "0 < S" "S \<le> L"
    using assms by (simp_all add: L_def S_def gcd_larger_def gcd_smaller_def)
  have "S * q + L mod S = L"
    by (simp add: q_def)
  moreover have "0 \<le> L mod S"
    using s(1) by simp
  ultimately have "S * q \<le> L"
    by linarith
  moreover have "0 \<le> q"
    using l s by (simp add: q_def pos_imp_zdiv_nonneg_iff)
  ultimately have q: "0 \<le> q" "S * q \<le> L"
    by simp_all
  have "1 * q \<le> S * q"
    using s(1) q(1) by (intro mult_right_mono) simp_all
  then have ql: "q \<le> L" using q(2) by simp
  have r: "0 \<le> L - S * q" "L - S * q \<le> L"
    using q s by simp_all
  have cd: "c_div L S = q"
    using l s by (simp add: c_div_def q_def)
  have cq: "int_to_double q = of_int q"
    using q(1) ql l(2) by (intro int_to_double_exact) simp
  have cs: "int_to_double S = of_int S"
    using s l by (intro int_to_double_exact) simp
  have cl: "int_to_double L = of_int L"
    using l by (intro int_to_double_exact) simp
  have m: "round_double (of_int (S * q)) = of_int (S * q)"
    using q s l by (intro rd_int) simp
  have d: "round_double (of_int (L - S * q)) = of_int (L - S * q)"
    using r l by (intro rd_int) simp
  have "double_mult (of_int S) (c_floor (of_int q)) = round_double (of_int (S * q))"
    by (simp add: double_mult_def c_floor_def)
  then have "double_mult (of_int S) (c_floor (of_int q)) = of_int (S * q)"
    by (simp only: m)
  then have "double_sub (of_int L) (double_mult (of_int S) (c_floor (of_int q)))
      = round_double (of_int (L - S * q))"
    by (simp add: double_sub_def)
  then have "double_sub (of_int L) (double_mult (of_int S) (c_floor (of_int q)))
      = of_int (L - S * q)"
    by (simp only: d)
  then have "gcd_remainder a b = double_to_int (of_int (L - S * q))"
    by (simp only: gcd_remainder_def L_def [symmetric] S_def [symmetric] cd cq cs cl)
  also have "\<dots> = L - S * q"
    by (rule double_to_int_of_int)
  also have "\<dots> = L mod S"
    by (simp add: q_def minus_mult_div_eq_mod)
  finally show ?thesis
    by (simp only: L_def S_def)
qed

lemma gcd_remainder_bounds:
  assumes "0 < a" "0 < b" "a < 2 ^ 31" "b < 2 ^ 31"
  shows "0 \<le> gcd_remainder a b \<and> gcd_remainder a b < gcd_smaller a b"
proof -
  have s: "0 < gcd_smaller a b"
    using assms by (simp add: gcd_smaller_def)
  show ?thesis
    using s by (simp add: gcd_remainder_pos [OF assms])
qed

lemma gcd_step:
  assumes "0 < a" "0 < b" "a < 2 ^ 31" "b < 2 ^ 31"
  shows "gcd (gcd_smaller a b) (gcd_remainder a b) = gcd a b"
proof -
  have red: "gcd y (x mod y) = gcd x y" for x y :: int
    by (rule gcd_red_int [symmetric])
  have "gcd (gcd_smaller a b) (gcd_larger a b mod gcd_smaller a b) = gcd a b"
    using red [of b a] red [of a b]
    by (simp add: gcd_smaller_def gcd_larger_def gcd.commute)
  then show ?thesis
    by (simp add: gcd_remainder_pos [OF assms])
qed

lemma greatest_common_divisor_correct:
  "0 < a \<Longrightarrow> 0 < b \<Longrightarrow> a < 2 ^ 31 \<Longrightarrow> b < 2 ^ 31
    \<Longrightarrow> greatest_common_divisor wl a b = Some (wl\<lparr>wl_gcd := gcd a b\<rparr>)"
proof (induction "nat (gcd_smaller a b)" arbitrary: a b rule: less_induct)
  case less
  have s: "0 < gcd_smaller a b" "gcd_smaller a b < 2 ^ 31"
    using less.prems by (simp_all add: gcd_smaller_def)
  have bounds: "0 \<le> gcd_remainder a b" "gcd_remainder a b < gcd_smaller a b"
    using gcd_remainder_bounds [OF less.prems] by simp_all
  show ?case
  proof (cases "gcd_remainder a b = 0")
    case True
    have "gcd a b = gcd (gcd_smaller a b) 0"
      using gcd_step [OF less.prems] True by simp
    then have "gcd a b = gcd_smaller a b"
      using s by simp
    then show ?thesis
      using s True by (subst greatest_common_divisor.simps) simp
  next
    case False
    then have r: "0 < gcd_remainder a b" "gcd_remainder a b < 2 ^ 31"
      using bounds s by simp_all
    have "gcd_smaller (gcd_smaller a b) (gcd_remainder a b) = gcd_remainder a b"
      using bounds by (simp add: gcd_smaller_def [of "gcd_smaller a b"])
    then have "nat (gcd_smaller (gcd_smaller a b) (gcd_remainder a b)) < nat (gcd_smaller a b)"
      using bounds r by simp
    then have "greatest_common_divisor wl (gcd_smaller a b) (gcd_remainder a b)
        = Some (wl\<lparr>wl_gcd := gcd (gcd_smaller a b) (gcd_remainder a b)\<rparr>)"
      using less.hyps s r by blast
    then show ?thesis
      using s False gcd_step [OF less.prems]
      by (subst greatest_common_divisor.simps) simp
  qed
qed

text \<open>
  C10. For positive \<open>a\<close> and \<open>b\<close> in the range of a C \<^verbatim>\<open>int\<close> the helper returns,
  and the state it returns differs from the one it got only in the field \<open>gcd\<close>,
  which holds the greatest common divisor of \<open>a\<close> and \<open>b\<close>. The divisor \<open>smaller\<close>
  of the call is not zero, and the remainder handed to the recursive call is not
  negative and strictly below that divisor, so the second argument strictly decreases
  from call to call.
\<close>

theorem greatest_common_divisor_terminates:
  assumes "0 < a" and "0 < b" and "a < 2 ^ 31" and "b < 2 ^ 31"
  shows "greatest_common_divisor wl a b = Some (wl\<lparr>wl_gcd := gcd a b\<rparr>)
    \<and> gcd_smaller a b \<noteq> 0
    \<and> 0 \<le> gcd_remainder a b
    \<and> gcd_remainder a b < gcd_smaller a b"
proof -
  have "gcd_smaller a b \<noteq> 0"
    using assms by (simp add: gcd_smaller_def)
  then show ?thesis
    using greatest_common_divisor_correct [OF assms] gcd_remainder_bounds [OF assms]
    by simp
qed

theorem greatest_common_divisor_terminates_witness:
  "(0::int) < 1920 \<and> (0::int) < 1080 \<and> (1920::int) < 2 ^ 31 \<and> (1080::int) < 2 ^ 31
   \<and> greatest_common_divisor example_state 1920 1080 = Some (example_state\<lparr>wl_gcd := 120\<rparr>)
   \<and> gcd_smaller 1920 1080 \<noteq> 0
   \<and> 0 \<le> gcd_remainder 1920 1080
   \<and> gcd_remainder 1920 1080 < gcd_smaller 1920 1080"
proof -
  have g: "gcd (1920::int) 1080 = 120"
    by code_simp
  show ?thesis
    using greatest_common_divisor_terminates [of 1920 1080 example_state]
    by (simp add: g gcd_smaller_def)
qed

section \<open>Properties of the edge resize zones\<close>

lemma ex_border:
  "(\<exists>b. P b) \<longleftrightarrow> P Border_left \<or> P Border_right \<or> P Border_top \<or> P Border_bottom"
  by (metis border.exhaust)

text \<open>
  C8. \<open>px\<close> and \<open>py\<close> are the pixel of the position, \<open>E\<close> the margin. In a
  fullscreen or maximized window no edge is reported, and nothing is stored. Otherwise
  an edge is reported exactly when the pixel lies in the margin of at least one
  border, that is, less than \<open>E\<close> pixels inside of it; the edge stored names only
  borders whose margin holds the pixel, it is the value 0 exactly when none is
  reported, and it is one of the four corners whenever the margins of a vertical
  border (left or right) and of a horizontal border (top or bottom) both hold the
  pixel.
\<close>

theorem check_for_resize_edges:
  assumes "check_for_resize wl x_w y_w E = (found, edge)"
    and "px = double_to_int (wl_fixed_to_double x_w)"
    and "py = double_to_int (wl_fixed_to_double y_w)"
  shows "(fullscreen (vo_opts wl) \<or> window_maximized (vo_opts wl) \<longrightarrow> \<not> found \<and> edge = None)
    \<and> (\<not> fullscreen (vo_opts wl) \<and> \<not> window_maximized (vo_opts wl) \<longrightarrow>
          (found \<longleftrightarrow> (\<exists>b. within_margin wl px py E b))
          \<and> (\<exists>e. edge = Some e
                \<and> (found \<longleftrightarrow> e \<noteq> XDG_TOPLEVEL_RESIZE_EDGE_NONE)
                \<and> (\<forall>b \<in> set (edge_borders e). within_margin wl px py E b)
                \<and> ((within_margin wl px py E Border_left \<or> within_margin wl px py E Border_right)
                    \<and> (within_margin wl px py E Border_top \<or> within_margin wl px py E Border_bottom)
                    \<longrightarrow> is_corner e)))"
  using assms
  by (auto simp: check_for_resize_def Let_def within_margin_def is_corner_def ex_border
      split: if_splits)

lemma example_window_simps:
  "fullscreen (vo_opts example_window) = False"
  "window_maximized (vo_opts example_window) = False"
  "geometry example_window = \<lparr>x0 = 0, y0 = 0, x1 = 800, y1 = 600\<rparr>"
  by (simp_all add: example_window_def example_state_def wl_zero_state_def
      example_init_env_def)

theorem check_for_resize_edges_witness:
  "check_for_resize example_window 896 153088 10
     = (True, Some XDG_TOPLEVEL_RESIZE_EDGE_BOTTOM_LEFT)
   \<and> (3::int) = double_to_int (wl_fixed_to_double 896)
   \<and> (598::int) = double_to_int (wl_fixed_to_double 153088)
   \<and> \<not> fullscreen (vo_opts example_window) \<and> \<not> window_maximized (vo_opts example_window)
   \<and> within_margin example_window 3 598 10 Border_left
   \<and> within_margin example_window 3 598 10 Border_bottom
   \<and> is_corner XDG_TOPLEVEL_RESIZE_EDGE_BOTTOM_LEFT"
proof -
  have px: "(3::int) = double_to_int (wl_fixed_to_double 896)"
    by (simp add: double_to_int_def wl_fixed_to_double_def)
  have py: "(598::int) = double_to_int (wl_fixed_to_double 153088)"
    by (simp add: double_to_int_def wl_fixed_to_double_def)
  have c: "check_for_resize example_window 896 153088 10
      = (True, Some XDG_TOPLEVEL_RESIZE_EDGE_BOTTOM_LEFT)"
    by (simp add: check_for_resize_def example_window_simps px [symmetric] py [symmetric]
        mp_rect_w_def mp_rect_h_def)
  have m: "within_margin example_window 3 598 10 Border_left"
    "within_margin example_window 3 598 10 Border_bottom"
    by (simp_all add: within_margin_def example_window_simps mp_rect_w_def mp_rect_h_def)
  show ?thesis
    using check_for_resize_edges [OF c px py] c px py m
    by (simp add: example_window_simps)
qed

section \<open>Properties of the visibility check\<close>

text \<open>
  C9. \<^verbatim>\<open>vo_wayland_check_visible\<close> returns true exactly when the surface is not
  hidden or vsync is disabled, and the state it leaves is the one it got with the
  frame-wait flag set and nothing else changed. So on a hidden surface with vsync
  enabled \<^verbatim>\<open>draw_frame\<close> returns at once: it asks nothing of the pool or the
  compositor and leaves its private state alone, with the frame wait armed.
\<close>

theorem check_visible_arms_frame_wait:
  "vo_wayland_check_visible wl = (\<not> hidden wl \<or> disable_vsync (opts wl), wl\<lparr>frame_wait := True\<rparr>)
   \<and> (hidden wl \<and> \<not> disable_vsync (opts wl) \<longrightarrow>
        draw_frame env p wl = (p, wl\<lparr>frame_wait := True\<rparr>, []))"
  by (simp add: vo_wayland_check_visible_def draw_frame_def Let_def)

theorem check_visible_arms_frame_wait_witness:
  "hidden (example_window\<lparr>hidden := True\<rparr>)
   \<and> \<not> disable_vsync (opts (example_window\<lparr>hidden := True\<rparr>))
   \<and> vo_wayland_check_visible (example_window\<lparr>hidden := True\<rparr>)
       = (False, example_window\<lparr>hidden := True, frame_wait := True\<rparr>)
   \<and> draw_frame \<lparr>have_vaapi = True, have_drm = True, va_display = True, entry = Some 7\<rparr>
        \<lparr>wlbuf_pool = False, want_reset = False, reset_count = 0\<rparr>
        (example_window\<lparr>hidden := True\<rparr>)
       = (\<lparr>wlbuf_pool = False, want_reset = False, reset_count = 0\<rparr>,
          example_window\<lparr>hidden := True, frame_wait := True\<rparr>, [])"
proof -
  have o: "disable_vsync (opts example_window) = False"
    by (simp add: example_window_def example_state_def wl_zero_state_def
        example_init_env_def wayland_conf_defaults_def)
  show ?thesis
    using check_visible_arms_frame_wait [of "example_window\<lparr>hidden := True\<rparr>"
        "\<lparr>have_vaapi = True, have_drm = True, va_display = True, entry = Some 7\<rparr>"
        "\<lparr>wlbuf_pool = False, want_reset = False, reset_count = 0\<rparr>"]
    by (simp add: o)
qed

section \<open>Properties of the toplevel configure handler\<close>

lemmas example_defs = example_window_def example_state_def wl_zero_state_def
  example_init_env_def wayland_conf_defaults_def zero_rect_def

lemma fold_switch_fullscreen:
  "is_fullscreen (fst (fold toplevel_state_switch states (l, vo)))
     = (is_fullscreen l \<or> XDG_TOPLEVEL_STATE_FULLSCREEN \<in> set states)"
proof (induction states arbitrary: l vo)
  case Nil
  show ?case by simp
next
  case (Cons s states)
  show ?case by (cases s) (simp_all add: Cons.IH)
qed

lemma fold_switch_maximized:
  "is_maximized (fst (fold toplevel_state_switch states (l, vo)))
     = (is_maximized l \<or> event_maximized states)"
proof (induction states arbitrary: l vo)
  case Nil
  show ?case by (simp add: event_maximized_def)
next
  case (Cons s states)
  show ?case by (cases s) (simp_all add: Cons.IH event_maximized_def)
qed

lemma fold_switch_opts:
  "fullscreen (snd (fold toplevel_state_switch states (l, vo))) = fullscreen vo
   \<and> window_maximized (snd (fold toplevel_state_switch states (l, vo))) = window_maximized vo
   \<and> keepaspect (snd (fold toplevel_state_switch states (l, vo))) = keepaspect vo
   \<and> keepaspect_window (snd (fold toplevel_state_switch states (l, vo)))
       = keepaspect_window vo"
proof (induction states arbitrary: l vo)
  case Nil
  show ?case by simp
next
  case (Cons s states)
  show ?case by (cases s) (simp_all add: Cons.IH)
qed

lemma states_loop:
  assumes "toplevel_states_loop states vo = (l, vo')"
  shows "is_fullscreen l = event_fullscreen states
   \<and> is_maximized l = event_maximized states
   \<and> fullscreen vo' = fullscreen vo \<and> window_maximized vo' = window_maximized vo
   \<and> keepaspect vo' = keepaspect vo \<and> keepaspect_window vo' = keepaspect_window vo"
proof -
  let ?l0 = "\<lparr>is_maximized = False, is_fullscreen = False, is_activated = False\<rparr>"
  have l: "l = fst (fold toplevel_state_switch states (?l0, vo))"
    and v: "vo' = snd (fold toplevel_state_switch states (?l0, vo))"
    using assms by (simp_all add: toplevel_states_loop_def)
  show ?thesis
    unfolding l v
    using fold_switch_opts [of states ?l0 vo]
    by (simp add: fold_switch_fullscreen fold_switch_maximized event_fullscreen_def)
qed

lemma take_states_fields:
  "geometry (config_take_states wl l) = geometry wl"
  "window_size (config_take_states wl l) = window_size wl"
  "toplevel_width (config_take_states wl l) = toplevel_width wl"
  "toplevel_height (config_take_states wl l) = toplevel_height wl"
  "reduced_width (config_take_states wl l) = reduced_width wl"
  "reduced_height (config_take_states wl l) = reduced_height wl"
  "keepaspect (vo_opts (config_take_states wl l)) = keepaspect (vo_opts wl)"
  "keepaspect_window (vo_opts (config_take_states wl l)) = keepaspect_window (vo_opts wl)"
  "callbacks (config_take_states wl l) = callbacks wl"
  "frame_callback_ptr (config_take_states wl l) = frame_callback_ptr wl"
  by (simp_all add: config_take_states_def request_decoration_mode_def Let_def)


lemma activation_fields:
  "geometry (config_activation wl l) = geometry wl"
  "window_size (config_activation wl l) = window_size wl"
  "toplevel_width (config_activation wl l) = toplevel_width wl"
  "toplevel_height (config_activation wl l) = toplevel_height wl"
  "reduced_width (config_activation wl l) = reduced_width wl"
  "reduced_height (config_activation wl l) = reduced_height wl"
  "vo_opts (config_activation wl l) = vo_opts wl"
  "state_change (config_activation wl l) = state_change wl"
  "callbacks (config_activation wl l) = callbacks wl"
  "frame_callback_ptr (config_activation wl l) = frame_callback_ptr wl"
  by (simp_all add: config_activation_def Let_def)






lemma keepaspect_size_fields:
  assumes "reduced_width wl' = reduced_width wl" "reduced_height wl' = reduced_height wl"
    "keepaspect_window (vo_opts wl') = keepaspect_window (vo_opts wl)"
  shows "keepaspect_size wl' width height = keepaspect_size wl width height"
  unfolding keepaspect_size_def assms ..



text \<open>
  The width that the handler computes beside this height is not always the width of
  the event: with a reduced width of 7 the quotient \<open>29 / 7\<close> is rounded up, its
  product with 7 exceeds 29, and the new width is 30. A height that does not fit the
  \<^verbatim>\<open>int32_t\<close> has no conversion: the reduced size 1 by 2147483647 and the width 2
  ask for the height 4294967294.
\<close>

lemma aspect_width_rounds_up:
  "double_to_int32 (c_ceil
     (double_mult (int_to_double 7) (double_div (int_to_double 29) (int_to_double 7)))) = Some 30"
  by code_simp

lemma aspect_height_overflows:
  "double_to_int32 (c_ceil
     (double_mult (int_to_double 2147483647) (double_div (int_to_double 2) (int_to_double 1))))
   = None"
proof -
  have a: "int_to_double 1 = 1"
    using int_to_double_exact [of 1] by simp
  have b: "round_double 4294967294 = 4294967294"
    by (simp add: rd_numeral)
  show ?thesis
    by (simp add: double_mult_def double_div_def double_to_int32_ceil rd_numeral
        int_to_double_numeral a b)
qed

section \<open>Properties of the listeners and of the frame wait\<close>

lemma d60: "double_to_int (double_div 1000000 (int_to_double 60)) = 16666"
proof -
  have c: "int_to_double 60 = 60"
    using int_to_double_exact [of 60] by simp
  define x :: real where "x = 50000 / 3"
  have "\<bar>round_double x - x\<bar> \<le> \<bar>x\<bar> / 2 ^ 53" by (rule rd_rel)
  then have "\<bar>round_double x - x\<bar> \<le> x / 9007199254740992" by (simp add: x_def)
  then have "16666 \<le> round_double x" "round_double x < 16667"
    unfolding x_def by linarith+
  then have "0 \<le> round_double x" "\<lfloor>round_double x\<rfloor> = 16666"
    by linarith+
  then show ?thesis
    by (simp add: double_div_def c double_to_int_def x_def)
qed

lemma select_first_positive:
  "vblank_time_select wl = first_positive (vblank_candidates wl) 16666"
  by (simp add: vblank_time_select_def vblank_candidates_def Let_def d60)

lemma select_pos: "0 < vblank_time_select wl"
  by (simp add: select_first_positive vblank_candidates_def)

lemma padded:
  assumes "0 \<le> v" and "v < 2 ^ 40"
  shows "vblank_time_padded v = v + v div 20"
proof -
  have cv: "int_to_double v = of_int v"
    using assms by (intro int_to_double_exact) simp
  define m where "m = v div 20"
  define k where "k = v mod 20"
  have v: "v = 20 * m + k" by (simp add: m_def k_def)
  have k: "0 \<le> k" "k < 20" by (simp_all add: k_def)
  have m0: "0 \<le> m" using assms(1) by (simp add: m_def)
  have mb: "m < 2 ^ 40" using assms m0 v k by simp
  define y :: real where "y = (1 + 1 / 2 ^ 54) / 20 * of_int v"
  define x1 where "x1 = round_double y"
  define x2 where "x2 = round_double (of_int v + x1)"
  have p: "vblank_time_padded v = double_to_int x2"
    by (simp add: vblank_time_padded_def double_add_def double_mult_def cv rd_twentieth
        x2_def x1_def y_def)
  have "x2 = of_int (v + m) \<or> (of_int (v + m) \<le> x2 \<and> x2 < of_int (v + m) + 1)"
  proof (cases "k = 0")
    case True
    have "x1 = of_int m"
    proof (cases "m = 0")
      case True
      then show ?thesis using \<open>k = 0\<close> by (simp add: x1_def y_def v round_double_def)
    next
      case False
      then have "0 < m" using m0 by simp
      moreover have "m < 2 ^ 52" using mb by simp
      ultimately have "round_double (of_int m * (1 + 1 / 2 ^ 54)) = of_int m"
        by (rule rd_scaled)
      moreover have "y = of_int m * (1 + 1 / 2 ^ 54)"
        using \<open>k = 0\<close> by (simp add: y_def v)
      ultimately show ?thesis by (simp only: x1_def)
    qed
    then have "x2 = round_double (of_int (v + m))" by (simp add: x2_def)
    also have "\<dots> = of_int (v + m)"
      using assms mb m0 by (intro rd_int) simp
    finally show ?thesis ..
  next
    case False
    then have k1: "1 \<le> k" "k \<le> 19" using k by simp_all
    define V :: real where "V = of_int v"
    define M :: real where "M = of_int m"
    define K :: real where "K = of_int k"
    have V: "V = 20 * M + K" by (simp add: V_def M_def K_def v)
    have K: "1 \<le> K" "K \<le> 19" using k1 by (simp_all add: K_def)
    have M: "0 \<le> M" using m0 by (simp add: M_def)
    have "V < 2 ^ 40"
      unfolding V_def using assms(2) by (metis of_int_less_iff of_int_numeral of_int_power)
    then have Vb: "V < 1099511627776" by simp
    have V0: "0 \<le> V" using assms(1) by (simp add: V_def)
    have y: "y = V / 20 + V / 360287970189639680" by (simp add: y_def V_def algebra_simps)
    have "\<bar>x1 - y\<bar> \<le> \<bar>y\<bar> / 2 ^ 53" unfolding x1_def by (rule rd_rel)
    then have e1: "\<bar>x1 - y\<bar> \<le> \<bar>y\<bar> / 9007199254740992" by simp
    have "\<bar>x2 - (V + x1)\<bar> \<le> \<bar>V + x1\<bar> / 2 ^ 53" unfolding x2_def V_def by (rule rd_rel)
    then have e2: "\<bar>x2 - (V + x1)\<bar> \<le> \<bar>V + x1\<bar> / 9007199254740992" by simp
    have y0: "0 \<le> y" "y \<le> V" using V0 by (simp_all add: y)
    have x1b: "\<bar>x1 - V / 20\<bar> \<le> 1 / 4096" using e1 y y0 Vb V0 by linarith
    have x1r: "V / 20 - 1 / 4096 \<le> x1" "x1 \<le> V / 20 + 1 / 4096"
      using x1b by linarith+
    have s: "0 \<le> V + x1" "V + x1 \<le> 2199023255552"
      using x1r V K M Vb by linarith+
    have "\<bar>x2 - (V + x1)\<bar> \<le> (V + x1) / 9007199254740992"
      using e2 s(1) by simp
    also have "\<dots> \<le> 2199023255552 / 9007199254740992"
      using s(2) by simp
    finally have x2b: "\<bar>x2 - (V + x1)\<bar> \<le> 1 / 2048" by simp
    have "V + V / 20 = 21 * M + K + K / 20" by (simp add: V field_simps)
    then have "21 * M + K + 1 / 20 \<le> V + V / 20" "V + V / 20 \<le> 21 * M + K + 19 / 20"
      using K by simp_all
    then have "21 * M + K \<le> x2" "x2 < 21 * M + K + 1"
      using x1b x2b by linarith+
    moreover have "of_int (v + m) = 21 * M + K" by (simp add: V_def M_def K_def v)
    ultimately show ?thesis by simp
  qed
  then have "of_int (v + m) \<le> x2" "x2 < of_int (v + m) + 1" by auto
  then have f: "\<lfloor>x2\<rfloor> = v + m" by (rule floor_unique)
  have "(0::real) \<le> of_int (v + m)" using assms(1) m0 by simp
  then have "0 \<le> x2" using \<open>of_int (v + m) \<le> x2\<close> by linarith
  then show ?thesis by (simp add: p double_to_int_def f m_def)
qed

lemma take_states_pace:
  "frame_wait (config_take_states wl l) = frame_wait wl"
  "timeout_count (config_take_states wl l) = timeout_count wl"
  "hidden (config_take_states wl l) = hidden wl"
  "next_id (config_take_states wl l) = next_id wl"
  "use_present (config_take_states wl l) = use_present wl"
  "activated (config_take_states wl l) = activated wl"
  by (simp_all add: config_take_states_def request_decoration_mode_def Let_def)

lemma activation_pace:
  "frame_wait (config_activation wl l) = frame_wait wl"
  "timeout_count (config_activation wl l) = timeout_count wl"
  "hidden (config_activation wl l) \<longrightarrow> hidden wl"
  "next_id (config_activation wl l) = next_id wl"
  "use_present (config_activation wl l) = use_present wl"
  by (simp_all add: config_activation_def Let_def)

lemma new_size_fields:
  assumes "config_new_size wl l width height = Some wl'"
  shows "frame_wait wl' = frame_wait wl" "timeout_count wl' = timeout_count wl"
    "hidden wl' = hidden wl" "callbacks wl' = callbacks wl"
    "frame_callback_ptr wl' = frame_callback_ptr wl" "next_id wl' = next_id wl"
    "reduced_width wl' = reduced_width wl" "vo_opts wl' = vo_opts wl"
    "use_present wl' = use_present wl" "reduced_height wl' = reduced_height wl"
  using assms
  by (auto simp: config_new_size_def Let_def split: if_splits option.splits prod.splits)

lemma resize_pace:
  "frame_wait (config_resize wl) = frame_wait wl"
  "timeout_count (config_resize wl) = timeout_count wl"
  "hidden (config_resize wl) = hidden wl"
  "callbacks (config_resize wl) = callbacks wl"
  "frame_callback_ptr (config_resize wl) = frame_callback_ptr wl"
  "next_id (config_resize wl) = next_id wl"
  "reduced_width (config_resize wl) = reduced_width wl"
  "vo_opts (config_resize wl) = vo_opts wl"
  "use_present (config_resize wl) = use_present wl"
  by (simp_all add: config_resize_def)

lemma config_apply_fields:
  assumes "config_apply wl1 l g w h width height = Some wl'"
  shows "frame_wait wl' = frame_wait wl1" "timeout_count wl' = timeout_count wl1"
    "hidden wl' = hidden wl1" "callbacks wl' = callbacks wl1"
    "frame_callback_ptr wl' = frame_callback_ptr wl1" "next_id wl' = next_id wl1"
    "reduced_width wl' = reduced_width wl1" "vo_opts wl' = vo_opts wl1"
    "use_present wl' = use_present wl1"
  using assms
  by (auto simp: config_apply_def resize_pace new_size_fields
      split: if_splits option.splits)

lemma toplevel_config_fields:
  assumes "handle_toplevel_config wl width height states = Some wl'"
  shows "frame_wait wl' = frame_wait wl" "timeout_count wl' = timeout_count wl"
    "hidden wl' \<longrightarrow> hidden wl" "callbacks wl' = callbacks wl"
    "frame_callback_ptr wl' = frame_callback_ptr wl" "next_id wl' = next_id wl"
    "reduced_width wl' = reduced_width wl"
    "keepaspect (vo_opts wl') = keepaspect (vo_opts wl)"
    "use_present wl' = use_present wl"
proof -
  obtain l vo where loop: "toplevel_states_loop states (vo_opts wl) = (l, vo)"
    by (cases "toplevel_states_loop states (vo_opts wl)")
  note sl = states_loop [OF loop]
  let ?w = "wl\<lparr>toplevel_width := width, toplevel_height := height, vo_opts := vo\<rparr>"
  let ?w1 = "config_activation (config_take_states ?w l) l"
  have base: "frame_wait ?w1 = frame_wait wl" "timeout_count ?w1 = timeout_count wl"
    "hidden ?w1 \<longrightarrow> hidden wl" "callbacks ?w1 = callbacks wl"
    "frame_callback_ptr ?w1 = frame_callback_ptr wl" "next_id ?w1 = next_id wl"
    "reduced_width ?w1 = reduced_width wl"
    "keepaspect (vo_opts ?w1) = keepaspect (vo_opts wl)"
    "use_present ?w1 = use_present wl"
    using sl activation_pace(3) [of "config_take_states ?w l" l]
    by (simp_all add: activation_pace activation_fields take_states_pace take_states_fields)
  have eq: "handle_toplevel_config wl width height states =
      (if mp_rect_w (geometry wl) = 0 \<or> mp_rect_h (geometry wl) = 0
       then Some (wl\<lparr>toplevel_width := width, toplevel_height := height\<rparr>)
       else config_apply ?w1 l (geometry wl) (toplevel_width wl) (toplevel_height wl)
              width height)"
    by (simp add: handle_toplevel_config_def Let_def loop)
  show "frame_wait wl' = frame_wait wl" "timeout_count wl' = timeout_count wl"
    "hidden wl' \<longrightarrow> hidden wl" "callbacks wl' = callbacks wl"
    "frame_callback_ptr wl' = frame_callback_ptr wl" "next_id wl' = next_id wl"
    "reduced_width wl' = reduced_width wl"
    "keepaspect (vo_opts wl') = keepaspect (vo_opts wl)"
    "use_present wl' = use_present wl"
  proof -
    have "frame_wait wl' = frame_wait wl \<and> timeout_count wl' = timeout_count wl
      \<and> (hidden wl' \<longrightarrow> hidden wl) \<and> callbacks wl' = callbacks wl
      \<and> frame_callback_ptr wl' = frame_callback_ptr wl \<and> next_id wl' = next_id wl
      \<and> reduced_width wl' = reduced_width wl
      \<and> keepaspect (vo_opts wl') = keepaspect (vo_opts wl)
      \<and> use_present wl' = use_present wl"
    proof (cases "mp_rect_w (geometry wl) = 0 \<or> mp_rect_h (geometry wl) = 0")
      case True
      then have "wl' = wl\<lparr>toplevel_width := width, toplevel_height := height\<rparr>"
        using assms eq by simp
      then show ?thesis by simp
    next
      case False
      then have "config_apply ?w1 l (geometry wl) (toplevel_width wl) (toplevel_height wl)
              width height = Some wl'"
        using assms eq by simp
      from config_apply_fields [OF this] base show ?thesis by simp
    qed
    then show "frame_wait wl' = frame_wait wl" "timeout_count wl' = timeout_count wl"
      "hidden wl' \<longrightarrow> hidden wl" "callbacks wl' = callbacks wl"
      "frame_callback_ptr wl' = frame_callback_ptr wl" "next_id wl' = next_id wl"
      "reduced_width wl' = reduced_width wl"
      "keepaspect (vo_opts wl') = keepaspect (vo_opts wl)"
      "use_present wl' = use_present wl"
      by simp_all
  qed
qed

lemma toplevel_config_defined:
  assumes "event_defined wl (Ev_toplevel_configure width height states)"
  shows "\<exists>wl'. handle_toplevel_config wl width height states = Some wl'"
proof -
  obtain l vo where loop: "toplevel_states_loop states (vo_opts wl) = (l, vo)"
    by (cases "toplevel_states_loop states (vo_opts wl)")
  note sl = states_loop [OF loop]
  let ?w = "wl\<lparr>toplevel_width := width, toplevel_height := height, vo_opts := vo\<rparr>"
  let ?w1 = "config_activation (config_take_states ?w l) l"
  have f: "reduced_width ?w1 = reduced_width wl" "reduced_height ?w1 = reduced_height wl"
    "keepaspect_window (vo_opts ?w1) = keepaspect_window (vo_opts wl)"
    "keepaspect (vo_opts ?w1) = keepaspect (vo_opts wl)"
    using sl by (simp_all add: activation_fields take_states_fields)
  have "keepaspect_size ?w1 width height = keepaspect_size wl width height"
    unfolding keepaspect_size_def f ..
  then have "keepaspect (vo_opts ?w1) \<longrightarrow> keepaspect_size ?w1 width height \<noteq> None"
    using assms f(4) by simp
  then have "\<exists>wl2. config_new_size ?w1 l width height = Some wl2"
    by (cases "keepaspect_size ?w1 width height") (auto simp: config_new_size_def)
  then show ?thesis
    by (auto simp: handle_toplevel_config_def config_apply_def Let_def loop)
qed

lemma wait_defined_cong:
  "event_defined wl' = event_defined wl \<Longrightarrow> wait_defined wl' = wait_defined wl"
  by (rule ext) (simp add: wait_defined_def)

lemma stable_fieldsD:
  assumes "stable_fields wl' = stable_fields wl"
  shows "use_present wl' = use_present wl" "timeout_count wl' = timeout_count wl"
    "vblank_time_select wl' = vblank_time_select wl"
    "event_defined wl' = event_defined wl"
    "wait_finish_time wl' env = wait_finish_time wl env"
proof -
  from assms have e: "use_present wl' = use_present wl"
    "vsync_duration wl' = vsync_duration wl" "refresh_interval wl' = refresh_interval wl"
    "refresh_rate wl' = refresh_rate wl" "reduced_width wl' = reduced_width wl"
    "reduced_height wl' = reduced_height wl"
    "keepaspect (vo_opts wl') = keepaspect (vo_opts wl)"
    "keepaspect_window (vo_opts wl') = keepaspect_window (vo_opts wl)"
    "timeout_count wl' = timeout_count wl"
    by (simp_all add: stable_fields_def)
  show "use_present wl' = use_present wl" "timeout_count wl' = timeout_count wl"
    by (rule e)+
  show v: "vblank_time_select wl' = vblank_time_select wl"
    unfolding vblank_time_select_def e ..
  have k: "keepaspect_size wl' w h = keepaspect_size wl w h" for w h
    unfolding keepaspect_size_def e ..
  show "event_defined wl' = event_defined wl"
  proof (rule ext)
    fix ev
    show "event_defined wl' ev = event_defined wl ev"
      by (cases ev) (simp_all add: k e)
  qed
  show "wait_finish_time wl' env = wait_finish_time wl env"
    unfolding wait_finish_time_def v ..
qed

lemma stable_take_states:
  "stable_fields (config_take_states wl l) = stable_fields wl"
  by (simp add: stable_fields_def config_take_states_def request_decoration_mode_def Let_def)

lemma stable_activation:
  "stable_fields (config_activation wl l) = stable_fields wl"
  by (simp add: stable_fields_def config_activation_def Let_def)

lemma stable_resize:
  "stable_fields (config_resize wl) = stable_fields wl"
  by (simp add: stable_fields_def config_resize_def)

lemma stable_new_size:
  "config_new_size wl l width height = Some wl' \<Longrightarrow> stable_fields wl' = stable_fields wl"
  by (auto simp: stable_fields_def config_new_size_def Let_def
      split: if_splits option.splits prod.splits)

lemma stable_geometry_update:
  "stable_fields (wl\<lparr>geometry := g\<rparr>) = stable_fields wl"
  "stable_fields (wl\<lparr>geometry := g, state_change := b\<rparr>) = stable_fields wl"
  by (simp_all add: stable_fields_def)

lemma stable_config_apply:
  assumes "config_apply wl1 l g w h width height = Some wl'"
  shows "stable_fields wl' = stable_fields wl1"
  using assms
  by (auto simp: config_apply_def stable_resize stable_new_size stable_geometry_update
      split: if_splits option.splits)

lemma stable_toplevel_config:
  assumes "handle_toplevel_config wl width height states = Some wl'"
  shows "stable_fields wl' = stable_fields wl"
proof -
  obtain l vo where loop: "toplevel_states_loop states (vo_opts wl) = (l, vo)"
    by (cases "toplevel_states_loop states (vo_opts wl)")
  note sl = states_loop [OF loop]
  let ?w = "wl\<lparr>toplevel_width := width, toplevel_height := height, vo_opts := vo\<rparr>"
  let ?w1 = "config_activation (config_take_states ?w l) l"
  have w: "stable_fields ?w = stable_fields wl"
    using sl by (simp add: stable_fields_def)
  have base: "stable_fields ?w1 = stable_fields wl"
    by (simp only: stable_activation stable_take_states w)
  have eq: "handle_toplevel_config wl width height states =
      (if mp_rect_w (geometry wl) = 0 \<or> mp_rect_h (geometry wl) = 0
       then Some (wl\<lparr>toplevel_width := width, toplevel_height := height\<rparr>)
       else config_apply ?w1 l (geometry wl) (toplevel_width wl) (toplevel_height wl)
              width height)"
    by (simp add: handle_toplevel_config_def Let_def loop)
  show ?thesis
  proof (cases "mp_rect_w (geometry wl) = 0 \<or> mp_rect_h (geometry wl) = 0")
    case True
    then have "wl' = wl\<lparr>toplevel_width := width, toplevel_height := height\<rparr>"
      using assms eq by simp
    then show ?thesis by (simp add: stable_fields_def)
  next
    case False
    then have "config_apply ?w1 l (geometry wl) (toplevel_width wl) (toplevel_height wl)
            width height = Some wl'"
      using assms eq by simp
    from stable_config_apply [OF this] base show ?thesis by simp
  qed
qed

lemma frame_callback_fields:
  "frame_wait (frame_callback wl cb) = False"
  "hidden (frame_callback wl cb) = False"
  "timeout_count (frame_callback wl cb) = timeout_count wl"
  "stable_fields (frame_callback wl cb) = stable_fields wl"
  by (simp_all add: frame_callback_def wl_surface_frame_def wl_callback_destroy_def
      wp_presentation_feedback_def stable_fields_def Let_def split: option.splits)

lemma frame_callback_store:
  "callbacks (frame_callback wl (Some c)) = removeAll c (callbacks wl) @ [next_id wl]"
  "frame_callback_ptr (frame_callback wl (Some c)) = Some (next_id wl)"
  "next_id wl < next_id (frame_callback wl (Some c))"
  by (simp_all add: frame_callback_def wl_surface_frame_def wl_callback_destroy_def
      wp_presentation_feedback_def Let_def)

lemma dnd_fields:
  "stable_fields (data_device_handle_data_offer wl i) = stable_fields wl"
  "stable_fields (data_offer_handle_offer score wl m) = stable_fields wl"
  "stable_fields (data_device_handle_leave wl) = stable_fields wl"
  "stable_fields (data_device_handle_selection wl) = stable_fields wl"
  "stable_fields (data_device_handle_drop wl pipefd) = stable_fields wl"
  by (simp_all add: stable_fields_def data_device_handle_data_offer_def
      data_offer_handle_offer_def data_device_handle_leave_def
      data_device_handle_selection_def data_device_handle_drop_def
      wl_data_offer_destroy_def Let_def split: option.splits)

lemma dnd_pace:
  "frame_wait (data_device_handle_data_offer wl i) = frame_wait wl"
  "hidden (data_device_handle_data_offer wl i) = hidden wl"
  "callbacks (data_device_handle_data_offer wl i) = callbacks wl"
  "frame_callback_ptr (data_device_handle_data_offer wl i) = frame_callback_ptr wl"
  "next_id (data_device_handle_data_offer wl i) = next_id wl"
  "frame_wait (data_offer_handle_offer score wl m) = frame_wait wl"
  "hidden (data_offer_handle_offer score wl m) = hidden wl"
  "callbacks (data_offer_handle_offer score wl m) = callbacks wl"
  "frame_callback_ptr (data_offer_handle_offer score wl m) = frame_callback_ptr wl"
  "next_id (data_offer_handle_offer score wl m) = next_id wl"
  "frame_wait (data_device_handle_leave wl) = frame_wait wl"
  "hidden (data_device_handle_leave wl) = hidden wl"
  "callbacks (data_device_handle_leave wl) = callbacks wl"
  "frame_callback_ptr (data_device_handle_leave wl) = frame_callback_ptr wl"
  "next_id (data_device_handle_leave wl) = next_id wl"
  "frame_wait (data_device_handle_selection wl) = frame_wait wl"
  "hidden (data_device_handle_selection wl) = hidden wl"
  "callbacks (data_device_handle_selection wl) = callbacks wl"
  "frame_callback_ptr (data_device_handle_selection wl) = frame_callback_ptr wl"
  "next_id (data_device_handle_selection wl) = next_id wl"
  "frame_wait (data_device_handle_drop wl pipefd) = frame_wait wl"
  "hidden (data_device_handle_drop wl pipefd) = hidden wl"
  "callbacks (data_device_handle_drop wl pipefd) = callbacks wl"
  "frame_callback_ptr (data_device_handle_drop wl pipefd) = frame_callback_ptr wl"
  "next_id (data_device_handle_drop wl pipefd) = next_id wl"
  by (simp_all add: data_device_handle_data_offer_def
      data_offer_handle_offer_def data_device_handle_leave_def
      data_device_handle_selection_def data_device_handle_drop_def
      wl_data_offer_destroy_def Let_def split: option.splits)

lemma handle_event_stable:
  "handle_event score wl ev = Some wl' \<Longrightarrow> stable_fields wl' = stable_fields wl"
  by (cases ev)
    (auto simp: handle_event_def frame_callback_fields dnd_fields stable_toplevel_config
      split: if_splits)

lemma handle_event_defined:
  "event_defined wl ev \<Longrightarrow> \<exists>wl'. handle_event score wl ev = Some wl'"
  by (cases ev)
    (auto simp: handle_event_def toplevel_config_defined simp del: event_defined.simps)

lemma handle_event_pace:
  assumes "handle_event score wl ev = Some wl'" "\<not> is_callback_done ev"
  shows "frame_wait wl' = frame_wait wl \<and> (hidden wl' \<longrightarrow> hidden wl)"
  using assms
  by (cases ev) (auto simp: handle_event_def dnd_pace dest: toplevel_config_fields)

lemma dispatch_stable:
  "dispatch_pending score wl evs = Some wl' \<Longrightarrow> stable_fields wl' = stable_fields wl"
proof (induction evs arbitrary: wl)
  case Nil
  then show ?case by simp
next
  case (Cons ev evs)
  then show ?case
    by (auto split: option.splits dest: handle_event_stable)
qed

lemma dispatch_defined:
  "list_all (event_defined wl) evs \<Longrightarrow> \<exists>wl'. dispatch_pending score wl evs = Some wl'"
proof (induction evs arbitrary: wl)
  case Nil
  then show ?case by simp
next
  case (Cons ev evs)
  from Cons.prems have d: "event_defined wl ev" "list_all (event_defined wl) evs"
    by simp_all
  obtain wl1 where h: "handle_event score wl ev = Some wl1"
    using handle_event_defined [OF d(1)] by blast
  have "list_all (event_defined wl1) evs"
    using stable_fieldsD(4) [OF handle_event_stable [OF h]] d(2) by simp
  from Cons.IH [OF this] h show ?case by simp
qed

lemma dispatch_pace:
  "dispatch_pending score wl evs = Some wl' \<Longrightarrow> list_all (\<lambda>ev. \<not> is_callback_done ev) evs
   \<Longrightarrow> frame_wait wl' = frame_wait wl \<and> (hidden wl' \<longrightarrow> hidden wl)"
proof (induction evs arbitrary: wl)
  case Nil
  then show ?case by simp
next
  case (Cons ev evs)
  obtain wl1 where h: "handle_event score wl ev = Some wl1"
    and d: "dispatch_pending score wl1 evs = Some wl'"
    using Cons.prems(1) by (auto split: option.splits)
  from Cons.prems(2) have n: "\<not> is_callback_done ev" "list_all (\<lambda>ev. \<not> is_callback_done ev) evs"
    by simp_all
  from Cons.IH [OF d n(2)] handle_event_pace [OF h n(1)] show ?case by simp
qed

lemma wait_loop_stable:
  "wait_loop score fin wl ps = Some wl' \<Longrightarrow> stable_fields wl' = stable_fields wl"
proof (induction ps arbitrary: wl)
  case Nil
  then show ?case by (simp split: if_splits)
next
  case (Cons p ps)
  obtain t_cond t_poll evs where p: "p = (t_cond, t_poll, evs)"
    by (cases p)
  show ?case
  proof (cases "frame_wait wl \<and> fin > t_cond")
    case True
    then obtain wl1 where d: "dispatch_pending score wl evs = Some wl1"
      and w: "wait_loop score fin wl1 ps = Some wl'"
      using Cons.prems p by (auto simp: vo_wayland_dispatch_events_def split: option.splits)
    from Cons.IH [OF w] dispatch_stable [OF d] show ?thesis by simp
  next
    case False
    then show ?thesis using Cons.prems p by auto
  qed
qed

lemma wait_loop_exit:
  "wait_loop score fin wl ps = Some wl' \<Longrightarrow> \<not> frame_wait wl' \<or> deadline_passes fin ps"
proof (induction ps arbitrary: wl)
  case Nil
  then show ?case by (simp split: if_splits)
next
  case (Cons p ps)
  obtain t_cond t_poll evs where p: "p = (t_cond, t_poll, evs)"
    by (cases p)
  show ?case
  proof (cases "frame_wait wl \<and> fin > t_cond")
    case True
    then obtain wl1 where w: "wait_loop score fin wl1 ps = Some wl'"
      using Cons.prems p by (auto split: option.splits)
    from Cons.IH [OF w] show ?thesis by (auto simp: deadline_passes_def)
  next
    case False
    then show ?thesis using Cons.prems p by (auto simp: deadline_passes_def)
  qed
qed

lemma wait_loop_returns:
  "list_all (\<lambda>(t_cond, t_poll, evs). list_all (event_defined wl) evs) ps
   \<Longrightarrow> deadline_passes fin ps \<Longrightarrow> \<exists>wl'. wait_loop score fin wl ps = Some wl'"
proof (induction ps arbitrary: wl)
  case Nil
  then show ?case by (simp add: deadline_passes_def)
next
  case (Cons p ps)
  obtain t_cond t_poll evs where p: "p = (t_cond, t_poll, evs)"
    by (cases p)
  from Cons.prems(1) p have e: "list_all (event_defined wl) evs"
    "list_all (\<lambda>(t_cond, t_poll, evs). list_all (event_defined wl) evs) ps"
    by simp_all
  show ?case
  proof (cases "frame_wait wl \<and> fin > t_cond")
    case True
    obtain wl1 where d: "dispatch_pending score wl evs = Some wl1"
      using dispatch_defined [OF e(1)] by blast
    have c: "list_all (\<lambda>(t_cond, t_poll, evs). list_all (event_defined wl1) evs) ps"
      using stable_fieldsD(4) [OF dispatch_stable [OF d]] e(2) by simp
    have "deadline_passes fin ps"
      using Cons.prems(2) True p by (simp add: deadline_passes_def)
    from Cons.IH [OF c this] d True p show ?thesis
      by (simp add: vo_wayland_dispatch_events_def)
  next
    case False
    then show ?thesis using p by auto
  qed
qed

lemma wait_loop_pace:
  "wait_loop score fin wl ps = Some wl' \<Longrightarrow>
   list_all (\<lambda>(t_cond, t_poll, evs). list_all (\<lambda>ev. \<not> is_callback_done ev) evs) ps
   \<Longrightarrow> frame_wait wl' = frame_wait wl \<and> (hidden wl' \<longrightarrow> hidden wl)"
proof (induction ps arbitrary: wl)
  case Nil
  then show ?case by (simp split: if_splits)
next
  case (Cons p ps)
  obtain t_cond t_poll evs where p: "p = (t_cond, t_poll, evs)"
    by (cases p)
  show ?case
  proof (cases "frame_wait wl \<and> fin > t_cond")
    case True
    then obtain wl1 where d: "dispatch_pending score wl evs = Some wl1"
      and w: "wait_loop score fin wl1 ps = Some wl'"
      using Cons.prems p by (auto simp: vo_wayland_dispatch_events_def split: option.splits)
    have n: "list_all (\<lambda>ev. \<not> is_callback_done ev) evs"
      "list_all (\<lambda>(t_cond, t_poll, evs). list_all (\<lambda>ev. \<not> is_callback_done ev) evs) ps"
      using Cons.prems(2) p by simp_all
    from Cons.IH [OF w n(2)] dispatch_pace [OF d n(1)] show ?thesis by simp
  next
    case False
    then show ?thesis using Cons.prems p by auto
  qed
qed

lemma count_defined:
  "event_defined (wait_frame_count wl) = event_defined wl"
proof (rule ext)
  fix ev
  have "keepaspect_size (wait_frame_count wl) w h = keepaspect_size wl w h" for w h
    by (intro keepaspect_size_fields) (simp_all add: wait_frame_count_def Let_def)
  moreover have "keepaspect (vo_opts (wait_frame_count wl)) = keepaspect (vo_opts wl)"
    by (simp add: wait_frame_count_def)
  ultimately show "event_defined (wait_frame_count wl) ev = event_defined wl ev"
    by (cases ev) simp_all
qed

lemma count_fields:
  "frame_wait (wait_frame_count wl) = frame_wait wl"
  "vblank_time_select (wait_frame_count wl) = vblank_time_select wl"
  "wait_defined (wait_frame_count wl) = wait_defined wl"
  "callbacks (wait_frame_count wl) = callbacks wl"
  "frame_callback_ptr (wait_frame_count wl) = frame_callback_ptr wl"
proof -
  show "wait_defined (wait_frame_count wl) = wait_defined wl"
    by (rule wait_defined_cong [OF count_defined])
qed (simp_all add: wait_frame_count_def vblank_time_select_def Let_def)

lemma handle_event_disarm:
  assumes "handle_event score wl ev = Some wl'" "frame_wait wl'"
  shows "frame_wait wl"
proof (cases "is_callback_done ev")
  case True
  then obtain c where "ev = Ev_callback_done c"
    by (cases ev) simp_all
  then show ?thesis
    using assms by (auto simp: handle_event_def frame_callback_fields split: if_splits)
next
  case False
  from handle_event_pace [OF assms(1) False] assms(2) show ?thesis by simp
qed

lemma dispatch_disarm:
  "dispatch_pending score wl evs = Some wl' \<Longrightarrow> frame_wait wl' \<Longrightarrow> frame_wait wl"
proof (induction evs arbitrary: wl)
  case Nil
  then show ?case by simp
next
  case (Cons ev evs)
  obtain wl1 where h: "handle_event score wl ev = Some wl1"
    and d: "dispatch_pending score wl1 evs = Some wl'"
    using Cons.prems(1) by (auto split: option.splits)
  from Cons.IH [OF d Cons.prems(2)] have "frame_wait wl1" .
  from handle_event_disarm [OF h this] show ?case .
qed

lemma wait_frame_decomp:
  assumes "vo_wayland_wait_frame score env wl = Some wl'"
  shows "\<exists>wl1 wl2. wait_loop score (wait_finish_time wl env) wl (polls env) = Some wl1
      \<and> (wl2 = wl1 \<or> dispatch_pending score wl1 (roundtrip_events env) = Some wl2)
      \<and> wl' = wait_frame_count wl2"
proof -
  from assms obtain wl1 where l: "wait_loop score (wait_finish_time wl env) wl (polls env) = Some wl1"
    by (auto simp: vo_wayland_wait_frame_def Let_def split: option.splits)
  from assms l obtain wl2 where r: "(if \<not> use_present wl1 \<and> \<not> display_error env
                    then wl_display_roundtrip score wl1 (roundtrip_events env)
                    else Some wl1) = Some wl2" and c: "wl' = wait_frame_count wl2"
    by (auto simp: vo_wayland_wait_frame_def Let_def split: option.splits)
  from r have d: "wl2 = wl1 \<or> dispatch_pending score wl1 (roundtrip_events env) = Some wl2"
    by (auto simp: wl_display_roundtrip_def split: if_splits)
  from l d c show ?thesis by blast
qed

lemma wait_frame_before_count:
  assumes "vo_wayland_wait_frame score env wl = Some wl'"
  shows "\<exists>wl2. wl' = wait_frame_count wl2 \<and> stable_fields wl2 = stable_fields wl
      \<and> (no_callback_done env \<longrightarrow> frame_wait wl2 = frame_wait wl \<and> (hidden wl2 \<longrightarrow> hidden wl))"
proof -
  from wait_frame_decomp [OF assms] obtain wl1 wl2
    where l: "wait_loop score (wait_finish_time wl env) wl (polls env) = Some wl1"
      and d: "wl2 = wl1 \<or> dispatch_pending score wl1 (roundtrip_events env) = Some wl2"
      and c: "wl' = wait_frame_count wl2"
    by blast
  have s1: "stable_fields wl1 = stable_fields wl"
    by (rule wait_loop_stable [OF l])
  have s2: "stable_fields wl2 = stable_fields wl1"
    using d dispatch_stable by auto
  have p: "frame_wait wl2 = frame_wait wl \<and> (hidden wl2 \<longrightarrow> hidden wl)" if n: "no_callback_done env"
  proof -
    from n have n1: "list_all (\<lambda>(t_cond, t_poll, evs). list_all (\<lambda>ev. \<not> is_callback_done ev) evs) (polls env)"
      and n2: "list_all (\<lambda>ev. \<not> is_callback_done ev) (roundtrip_events env)"
      by (simp_all add: no_callback_done_def)
    from wait_loop_pace [OF l n1] have p1: "frame_wait wl1 = frame_wait wl \<and> (hidden wl1 \<longrightarrow> hidden wl)" .
    from d show ?thesis
    proof
      assume "wl2 = wl1" with p1 show ?thesis by simp
    next
      assume "dispatch_pending score wl1 (roundtrip_events env) = Some wl2"
      from dispatch_pace [OF this n2] p1 show ?thesis by simp
    qed
  qed
  show ?thesis
    using c s1 s2 p by auto
qed

lemma wait_frame_miss:
  assumes "vo_wayland_wait_frame score env wl = Some wl'" "no_callback_done env" "frame_wait wl"
  shows "frame_wait wl'"
    and "timeout_count wl' = (if timeout_count wl > 1 then timeout_count wl else timeout_count wl + 1)"
    and "timeout_count wl > 1 \<Longrightarrow> hidden wl'"
    and "timeout_count wl \<le> 1 \<Longrightarrow> hidden wl' \<Longrightarrow> hidden wl"
    and "vblank_time_select wl' = vblank_time_select wl"
    and "wait_defined wl' = wait_defined wl"
proof -
  from wait_frame_before_count [OF assms(1)] assms(2) obtain wl2
    where c: "wl' = wait_frame_count wl2"
    and s: "stable_fields wl2 = stable_fields wl"
    and p: "frame_wait wl2 = frame_wait wl \<and> (hidden wl2 \<longrightarrow> hidden wl)"
    by blast
  note sd = stable_fieldsD [OF s]
  show "frame_wait wl'" using c p assms(3) by (simp add: count_fields)
  show "timeout_count wl' = (if timeout_count wl > 1 then timeout_count wl else timeout_count wl + 1)"
    using c p assms(3) sd(2) by (simp add: wait_frame_count_def)
  show "timeout_count wl > 1 \<Longrightarrow> hidden wl'"
    using c p assms(3) sd(2) by (simp add: wait_frame_count_def)
  show "timeout_count wl \<le> 1 \<Longrightarrow> hidden wl' \<Longrightarrow> hidden wl"
    using c p assms(3) sd(2) by (simp add: wait_frame_count_def)
  show "vblank_time_select wl' = vblank_time_select wl"
    using c sd(3) by (simp add: count_fields)
  show "wait_defined wl' = wait_defined wl"
    using c wait_defined_cong [OF sd(4)] by (simp add: count_fields)
qed

lemma wait_frame_hit:
  assumes "vo_wayland_wait_frame score env wl = Some wl'" "\<not> frame_wait wl'"
  shows "timeout_count wl' = 0"
proof -
  from wait_frame_before_count [OF assms(1)] obtain wl2 where c: "wl' = wait_frame_count wl2"
    by blast
  with assms(2) show ?thesis
    by (simp add: wait_frame_count_def split: if_splits)
qed

lemma wait_frame_returns:
  assumes "wait_defined wl env" "deadline_passes (wait_finish_time wl env) (polls env)"
  shows "\<exists>wl'. vo_wayland_wait_frame score env wl = Some wl'"
proof -
  from assms(1) have e: "list_all (\<lambda>(t_cond, t_poll, evs). list_all (event_defined wl) evs) (polls env)"
    "list_all (event_defined wl) (roundtrip_events env)"
    by (simp_all add: wait_defined_def)
  obtain wl1 where l: "wait_loop score (wait_finish_time wl env) wl (polls env) = Some wl1"
    using wait_loop_returns [OF e(1) assms(2)] by blast
  have "list_all (event_defined wl1) (roundtrip_events env)"
    using stable_fieldsD(4) [OF wait_loop_stable [OF l]] e(2) by simp
  then obtain wl2 where "dispatch_pending score wl1 (roundtrip_events env) = Some wl2"
    using dispatch_defined by blast
  then show ?thesis
    using l by (simp add: vo_wayland_wait_frame_def wl_display_roundtrip_def Let_def)
qed

lemma wait_frames_misses:
  assumes "frame_wait wl" "0 \<le> timeout_count wl" "timeout_count wl \<le> 2"
    and "list_all (wait_defined wl) envs"
    and "list_all (timed_out wl) envs"
  shows "\<exists>wl'. wait_frames score envs wl = Some wl'
      \<and> frame_wait wl'
      \<and> timeout_count wl' = min (timeout_count wl + int (length envs)) 2
      \<and> (3 \<le> timeout_count wl + int (length envs) \<longrightarrow> hidden wl')
      \<and> (timeout_count wl + int (length envs) \<le> 2 \<longrightarrow> hidden wl' \<longrightarrow> hidden wl)"
  using assms
proof (induction envs arbitrary: wl)
  case Nil
  then show ?case by simp
next
  case (Cons env envs)
  from Cons.prems(5) have t: "timed_out wl env" and ts: "list_all (timed_out wl) envs"
    by simp_all
  from Cons.prems(4) have df: "wait_defined wl env" and dfs: "list_all (wait_defined wl) envs"
    by simp_all
  from t have n: "no_callback_done env"
    and d: "deadline_passes (wait_finish_time wl env) (polls env)"
    by (simp_all add: timed_out_def)
  obtain wl1 where w: "vo_wayland_wait_frame score env wl = Some wl1"
    using wait_frame_returns [OF df d] by blast
  note m = wait_frame_miss [OF w n Cons.prems(1)]
  have same: "timed_out wl1 = timed_out wl"
    by (rule ext) (simp add: timed_out_def wait_finish_time_def m(5))
  have c1: "0 \<le> timeout_count wl1" "timeout_count wl1 \<le> 2"
    using m(2) Cons.prems(2,3) by (simp_all split: if_splits)
  have "\<exists>wl'. wait_frames score envs wl1 = Some wl'
      \<and> frame_wait wl'
      \<and> timeout_count wl' = min (timeout_count wl1 + int (length envs)) 2
      \<and> (3 \<le> timeout_count wl1 + int (length envs) \<longrightarrow> hidden wl')
      \<and> (timeout_count wl1 + int (length envs) \<le> 2 \<longrightarrow> hidden wl' \<longrightarrow> hidden wl1)"
    using Cons.IH [OF m(1) c1] m(6) dfs ts same by simp
  then obtain wl' where r: "wait_frames score envs wl1 = Some wl'" "frame_wait wl'"
      "timeout_count wl' = min (timeout_count wl1 + int (length envs)) 2"
      "3 \<le> timeout_count wl1 + int (length envs) \<longrightarrow> hidden wl'"
      "timeout_count wl1 + int (length envs) \<le> 2 \<longrightarrow> hidden wl' \<longrightarrow> hidden wl1"
    by blast
  have h: "hidden wl'" if three: "3 \<le> timeout_count wl + int (length (env # envs))"
  proof (cases "timeout_count wl > 1")
    case True
    then have h1: "hidden wl1" and "timeout_count wl1 = 2"
      using m(2,3) Cons.prems(3) by simp_all
    then show ?thesis
      using r(1,4,5) by (cases envs) auto
  next
    case False
    then show ?thesis using r(4) m(2) three by simp
  qed
  have k: "hidden wl" if "timeout_count wl + int (length (env # envs)) \<le> 2" "hidden wl'"
    using that r(5) m(2,4) Cons.prems(2) by (simp split: if_splits)
  have c: "timeout_count wl' = min (timeout_count wl + int (length (env # envs))) 2"
    using r(3) m(2) Cons.prems(2,3) by (simp split: if_splits)
  show ?case
    using w r(1,2) h k c by simp
qed

lemma example_armed_simps:
  "frame_wait example_armed" "timeout_count example_armed = 0" "hidden example_armed = False"
  "use_present example_armed" "wait_defined example_armed example_miss_env"
  "vblank_time_select example_armed = 16666"
  "callbacks example_armed = [0]" "presentation example_armed" "next_id example_armed = 1"
  by (simp_all add: example_armed_def example_defs wait_defined_def example_miss_env_def
      select_first_positive vblank_candidates_def)

lemma select_timeout_update:
  "vblank_time_select (wl\<lparr>timeout_count := n\<rparr>) = vblank_time_select wl"
  by (simp add: vblank_time_select_def Let_def)

lemma example_armed_count:
  "frame_wait (example_armed\<lparr>timeout_count := n\<rparr>)"
  "vblank_time_select (example_armed\<lparr>timeout_count := n\<rparr>) = 16666"
  "use_present (example_armed\<lparr>timeout_count := n\<rparr>)"
  by (simp_all add: select_timeout_update example_armed_simps)

lemma padded_16666: "vblank_time_padded 16666 = 17499"
  by (simp add: padded)

lemma example_miss:
  assumes "frame_wait wl" "vblank_time_select wl = 16666" "use_present wl"
  shows "vo_wayland_wait_frame score example_miss_env wl = Some (wait_frame_count wl)"
    and "timed_out wl example_miss_env"
    and "wait_finish_time wl example_miss_env = 17499"
  using assms
  by (simp_all add: vo_wayland_wait_frame_def wait_finish_time_def example_miss_env_def
      padded_16666 vo_wayland_dispatch_events_def timed_out_def no_callback_done_def
      deadline_passes_def Let_def)

lemma example_hit:
  assumes "frame_wait wl" "vblank_time_select wl = 16666" "use_present wl"
    "callbacks wl = [0]"
  shows "vo_wayland_wait_frame score example_hit_env wl
    = Some ((frame_callback wl (Some 0))\<lparr>timeout_count := 0\<rparr>)"
proof -
  have u: "use_present (frame_callback wl (Some 0))"
    using stable_fieldsD(1) [OF frame_callback_fields(4), of wl "Some 0"] assms(3) by simp
  show ?thesis
    using assms u
    by (simp add: vo_wayland_wait_frame_def wait_finish_time_def example_hit_env_def
      padded_16666 vo_wayland_dispatch_events_def handle_event_def frame_callback_fields
      wait_frame_count_def Let_def)
qed

text \<open>
  C2, as the code has it. From a state with the frame wait armed and a miss counter of
  zero, consecutive calls of \<^verbatim>\<open>vo_wayland_wait_frame\<close> that each time out with no
  frame callback fired all return; they leave the frame wait armed; the counter is 1
  after the first and 2 from the second on; the first two do not set the hidden flag;
  the third does, and from then on the flag is set and the counter stays at 2, so
  further misses change neither. The listener \<^verbatim>\<open>frame_callback\<close> clears the
  frame-wait flag and the hidden flag and leaves the counter as it is; the counter is
  cleared by a call of \<^verbatim>\<open>vo_wayland_wait_frame\<close> that ends with the frame-wait flag
  cleared, that is, after the callback has fired.
\<close>

theorem wait_frame_hidden_on_third_miss:
  assumes "frame_wait wl" and "timeout_count wl = 0"
    and "list_all (wait_defined wl) envs"
    and "list_all (timed_out wl) envs"
  shows "(\<exists>wl'. wait_frames score envs wl = Some wl'
          \<and> frame_wait wl'
          \<and> timeout_count wl' = min (int (length envs)) 2
          \<and> (3 \<le> length envs \<longrightarrow> hidden wl')
          \<and> (length envs \<le> 2 \<longrightarrow> hidden wl' \<longrightarrow> hidden wl))
    \<and> frame_wait (frame_callback wl cb) = False
    \<and> hidden (frame_callback wl cb) = False
    \<and> timeout_count (frame_callback wl cb) = timeout_count wl
    \<and> (vo_wayland_wait_frame score env' wl1 = Some wl2 \<and> \<not> frame_wait wl2
         \<longrightarrow> timeout_count wl2 = 0)"
proof -
  have "0 \<le> timeout_count wl" "timeout_count wl \<le> 2"
    using assms(2) by simp_all
  from wait_frames_misses [OF assms(1) this assms(3,4), of score] assms(2)
  have "\<exists>wl'. wait_frames score envs wl = Some wl'
          \<and> frame_wait wl'
          \<and> timeout_count wl' = min (int (length envs)) 2
          \<and> (3 \<le> length envs \<longrightarrow> hidden wl')
          \<and> (length envs \<le> 2 \<longrightarrow> hidden wl' \<longrightarrow> hidden wl)"
    by simp
  then show ?thesis
    using wait_frame_hit [of score env' wl1 wl2]
    by (simp add: frame_callback_fields)
qed

theorem wait_frame_hidden_on_third_miss_witness:
  "frame_wait example_armed \<and> timeout_count example_armed = 0
   \<and> list_all (wait_defined example_armed) [example_miss_env, example_miss_env, example_miss_env]
   \<and> list_all (timed_out example_armed) [example_miss_env, example_miss_env, example_miss_env]
   \<and> wait_frames example_score [example_miss_env, example_miss_env, example_miss_env]
        example_armed = Some (example_armed\<lparr>timeout_count := 2, hidden := True\<rparr>)
   \<and> min (int (length [example_miss_env, example_miss_env, example_miss_env])) 2 = 2
   \<and> frame_wait (frame_callback example_armed (Some 0)) = False
   \<and> timeout_count (frame_callback example_armed (Some 0)) = 0
   \<and> vo_wayland_wait_frame example_score example_hit_env (example_armed\<lparr>timeout_count := 2\<rparr>)
       = Some ((frame_callback (example_armed\<lparr>timeout_count := 2\<rparr>) (Some 0))
                 \<lparr>timeout_count := 0\<rparr>)
   \<and> \<not> frame_wait ((frame_callback (example_armed\<lparr>timeout_count := 2\<rparr>) (Some 0))
                 \<lparr>timeout_count := 0\<rparr>)"
proof -
  have hit: "vo_wayland_wait_frame example_score example_hit_env
        (example_armed\<lparr>timeout_count := 2\<rparr>)
       = Some ((frame_callback (example_armed\<lparr>timeout_count := 2\<rparr>) (Some 0))
                 \<lparr>timeout_count := 0\<rparr>)"
    by (rule example_hit) (simp_all add: example_armed_count example_armed_simps)
  have t: "timed_out example_armed example_miss_env"
    by (rule example_miss(2)) (simp_all add: example_armed_simps)
  note s = example_armed_count
  have w: "wait_frames example_score [example_miss_env, example_miss_env, example_miss_env]
        example_armed = Some (example_armed\<lparr>timeout_count := 2, hidden := True\<rparr>)"
    by (simp add: example_miss(1) example_armed_simps s wait_frame_count_def)
  show ?thesis
    using wait_frame_hidden_on_third_miss [where wl = example_armed
        and envs = "[example_miss_env, example_miss_env, example_miss_env]"
        and cb = "Some 0" and score = example_score and env' = example_hit_env
        and ?wl1.0 = "example_armed\<lparr>timeout_count := 2\<rparr>"
        and ?wl2.0 = "(frame_callback (example_armed\<lparr>timeout_count := 2\<rparr>) (Some 0))
                 \<lparr>timeout_count := 0\<rparr>"] t w hit
    by (simp add: example_armed_simps frame_callback_fields)
qed

text \<open>
  C2 as stated fails: after exactly two consecutive timed-out calls the surface is
  not marked hidden (it takes a third), and the frame callback firing leaves the miss
  counter at 2.
\<close>

theorem wait_frame_two_misses_counterexample:
  "frame_wait example_armed \<and> timeout_count example_armed = 0 \<and> \<not> hidden example_armed
   \<and> timed_out example_armed example_miss_env
   \<and> vo_wayland_wait_frame example_score example_miss_env example_armed
        = Some (example_armed\<lparr>timeout_count := 1\<rparr>)
   \<and> timed_out (example_armed\<lparr>timeout_count := 1\<rparr>) example_miss_env
   \<and> vo_wayland_wait_frame example_score example_miss_env (example_armed\<lparr>timeout_count := 1\<rparr>)
        = Some (example_armed\<lparr>timeout_count := 2\<rparr>)
   \<and> \<not> hidden (example_armed\<lparr>timeout_count := 2\<rparr>)
   \<and> timeout_count (frame_callback (example_armed\<lparr>timeout_count := 2\<rparr>) (Some 0)) = 2"
proof -
  note s = example_armed_count
  have t: "timed_out example_armed example_miss_env"
    "timed_out (example_armed\<lparr>timeout_count := 1\<rparr>) example_miss_env"
    by (rule example_miss(2); simp add: example_armed_simps s)+
  show ?thesis
    using t
    by (simp add: example_miss(1) example_armed_simps s wait_frame_count_def
        frame_callback_fields)
qed

lemma wait_frame_run:
  assumes "vo_wayland_wait_frame score env wl = Some wl'"
  shows "\<exists>wl1 wl2. wait_loop score (wait_finish_time wl env) wl (polls env) = Some wl1
      \<and> (\<not> frame_wait wl1 \<or> deadline_passes (wait_finish_time wl env) (polls env))
      \<and> (wl2 = wl1 \<or> dispatch_pending score wl1 (roundtrip_events env) = Some wl2)
      \<and> wl' = wait_frame_count wl2"
    and "frame_wait wl' \<Longrightarrow> deadline_passes (wait_finish_time wl env) (polls env)"
proof -
  from wait_frame_decomp [OF assms] obtain wl1 wl2
    where l: "wait_loop score (wait_finish_time wl env) wl (polls env) = Some wl1"
      and d: "wl2 = wl1 \<or> dispatch_pending score wl1 (roundtrip_events env) = Some wl2"
      and c: "wl' = wait_frame_count wl2"
    by blast
  note x = wait_loop_exit [OF l]
  from l x d c
  show "\<exists>wl1 wl2. wait_loop score (wait_finish_time wl env) wl (polls env) = Some wl1
      \<and> (\<not> frame_wait wl1 \<or> deadline_passes (wait_finish_time wl env) (polls env))
      \<and> (wl2 = wl1 \<or> dispatch_pending score wl1 (roundtrip_events env) = Some wl2)
      \<and> wl' = wait_frame_count wl2"
    by blast
  show "deadline_passes (wait_finish_time wl env) (polls env)" if f: "frame_wait wl'"
  proof -
    from f c have "frame_wait wl2" by (simp add: count_fields)
    with d have "frame_wait wl1" using dispatch_disarm by blast
    with x show ?thesis by simp
  qed
qed

text \<open>
  C5. The vblank interval is the first positive value among the vsync duration of the
  presentation feedback (when presentation is in use), the refresh interval reported
  by the compositor, and the interval of the output's refresh rate, and 16666
  microseconds (60 Hz) when none is positive. The deadline is the clock reading plus
  the interval padded by 5 percent, which for an interval \<open>v\<close> below \<open>2 ^ 40\<close>
  microseconds is \<open>v + v div 20\<close>, the rounding of the double operations not
  showing in the truncated result. The loop dispatches with the
  remaining time as the poll timeout as long as the frame wait is armed and the clock
  is before the deadline, and leaves otherwise; the done event of an outstanding
  callback disarms the frame wait; so when the loop is left either the callback has
  fired or the deadline has passed. The routine returns whenever the clock passes the
  deadline. A call of \<^verbatim>\<open>vo_wayland_wait_frame\<close> that returns has run this loop with
  the padded deadline of its own state and clock reading, has left it with the frame
  wait disarmed or the deadline passed, has then at most dispatched the events of the
  round trip, and has ended with the update of the miss counter; when it returns with
  the frame wait still armed, the deadline has passed, and this is the only way it
  returns from an armed wait when no callback fires.
\<close>

theorem wait_frame_deadline_and_poll:
  "vblank_time_select wl
     = first_positive (vblank_candidates wl)
         (double_to_int (double_div 1000000 (int_to_double 60)))
   \<and> double_to_int (double_div 1000000 (int_to_double 60)) = 16666
   \<and> (vblank_time_select wl < 2 ^ 40 \<longrightarrow>
        wait_finish_time wl env
          = now0 env + (vblank_time_select wl + vblank_time_select wl div 20))
   \<and> (wait_loop score fin wl ps = Some wl1 \<longrightarrow> \<not> frame_wait wl1 \<or> deadline_passes fin ps)
   \<and> (frame_wait wl \<and> t_cond < fin \<longrightarrow>
        wait_loop score fin wl ((t_cond, t_poll, evs) # rest)
          = Option.bind (vo_wayland_dispatch_events score wl 1 (poll_time_ms fin t_poll) evs)
              (\<lambda>wl2. wait_loop score fin wl2 rest))
   \<and> (\<not> frame_wait wl \<or> fin \<le> t_cond \<longrightarrow>
        wait_loop score fin wl ((t_cond, t_poll, evs) # rest) = Some wl)
   \<and> (c \<in> set (callbacks wl) \<longrightarrow>
        handle_event score wl (Ev_callback_done c) = Some (frame_callback wl (Some c))
        \<and> \<not> frame_wait (frame_callback wl (Some c)))
   \<and> (wait_defined wl env \<and> deadline_passes (wait_finish_time wl env) (polls env) \<longrightarrow>
        (\<exists>wl'. vo_wayland_wait_frame score env wl = Some wl'))
   \<and> (vo_wayland_wait_frame score env wl = Some wl_end \<longrightarrow>
        (\<exists>wl1 wl2. wait_loop score (wait_finish_time wl env) wl (polls env) = Some wl1
           \<and> (\<not> frame_wait wl1 \<or> deadline_passes (wait_finish_time wl env) (polls env))
           \<and> (wl2 = wl1 \<or> dispatch_pending score wl1 (roundtrip_events env) = Some wl2)
           \<and> wl_end = wait_frame_count wl2))
   \<and> (vo_wayland_wait_frame score env wl = Some wl_end \<and> frame_wait wl_end \<longrightarrow>
        deadline_passes (wait_finish_time wl env) (polls env))
   \<and> (vo_wayland_wait_frame score env wl = Some wl_end \<and> frame_wait wl
        \<and> no_callback_done env \<longrightarrow>
        frame_wait wl_end \<and> deadline_passes (wait_finish_time wl env) (polls env))"
proof -
  have d: "double_to_int (double_div 1000000 (int_to_double 60)) = 16666"
    by (rule d60)
  have f: "vblank_time_select wl < 2 ^ 40 \<longrightarrow>
        wait_finish_time wl env
          = now0 env + (vblank_time_select wl + vblank_time_select wl div 20)"
    using select_pos [of wl] by (simp add: wait_finish_time_def padded)
  have l: "wait_loop score fin wl ps = Some wl1 \<longrightarrow> \<not> frame_wait wl1 \<or> deadline_passes fin ps"
    using wait_loop_exit by blast
  have b: "frame_wait wl \<and> t_cond < fin \<longrightarrow>
        wait_loop score fin wl ((t_cond, t_poll, evs) # rest)
          = Option.bind (vo_wayland_dispatch_events score wl 1 (poll_time_ms fin t_poll) evs)
              (\<lambda>wl2. wait_loop score fin wl2 rest)"
    by (simp split: option.splits)
  have e: "\<not> frame_wait wl \<or> fin \<le> t_cond \<longrightarrow>
        wait_loop score fin wl ((t_cond, t_poll, evs) # rest) = Some wl"
    by auto
  have h: "c \<in> set (callbacks wl) \<longrightarrow>
        handle_event score wl (Ev_callback_done c) = Some (frame_callback wl (Some c))
        \<and> \<not> frame_wait (frame_callback wl (Some c))"
    by (simp add: handle_event_def frame_callback_fields)
  have r: "wait_defined wl env \<and> deadline_passes (wait_finish_time wl env) (polls env) \<longrightarrow>
        (\<exists>wl'. vo_wayland_wait_frame score env wl = Some wl')"
    using wait_frame_returns by blast
  have u: "vo_wayland_wait_frame score env wl = Some wl_end \<longrightarrow>
        (\<exists>wl1 wl2. wait_loop score (wait_finish_time wl env) wl (polls env) = Some wl1
           \<and> (\<not> frame_wait wl1 \<or> deadline_passes (wait_finish_time wl env) (polls env))
           \<and> (wl2 = wl1 \<or> dispatch_pending score wl1 (roundtrip_events env) = Some wl2)
           \<and> wl_end = wait_frame_count wl2)"
    using wait_frame_run(1) by blast
  have v: "vo_wayland_wait_frame score env wl = Some wl_end \<and> frame_wait wl_end \<longrightarrow>
        deadline_passes (wait_finish_time wl env) (polls env)"
    using wait_frame_run(2) by blast
  have w: "vo_wayland_wait_frame score env wl = Some wl_end \<and> frame_wait wl
        \<and> no_callback_done env \<longrightarrow>
        frame_wait wl_end \<and> deadline_passes (wait_finish_time wl env) (polls env)"
  proof (intro impI, elim conjE)
    assume a: "vo_wayland_wait_frame score env wl = Some wl_end" "frame_wait wl"
      "no_callback_done env"
    have "frame_wait wl_end" by (rule wait_frame_miss(1) [OF a(1) a(3) a(2)])
    then show "frame_wait wl_end \<and> deadline_passes (wait_finish_time wl env) (polls env)"
      using wait_frame_run(2) [OF a(1)] by simp
  qed
  show ?thesis
    using d f l b e h r u v w by (simp only: select_first_positive simp_thms)
qed

theorem wait_frame_deadline_and_poll_witness:
  "wait_defined example_armed example_miss_env
   \<and> vblank_time_select example_armed < 2 ^ 40
   \<and> wait_finish_time example_armed example_miss_env = 17499
   \<and> deadline_passes 17499 (polls example_miss_env)
   \<and> no_callback_done example_miss_env
   \<and> vo_wayland_wait_frame example_score example_miss_env example_armed
       = Some (example_armed\<lparr>timeout_count := 1\<rparr>)
   \<and> frame_wait (example_armed\<lparr>timeout_count := 1\<rparr>)
   \<and> frame_wait example_armed \<and> (0::int) < 17499 \<and> 0 \<in> set (callbacks example_armed)
   \<and> wait_loop example_score 17499 example_armed [(0, 0, [Ev_callback_done 0])]
       = Some (frame_callback example_armed (Some 0))
   \<and> \<not> frame_wait (frame_callback example_armed (Some 0))
   \<and> wait_loop example_score 17499 example_armed [(20000, 20000, [])] = Some example_armed"
proof -
  have a: "frame_wait example_armed" "vblank_time_select example_armed = 16666"
    "use_present example_armed"
    by (simp_all add: example_armed_simps)
  have f: "wait_finish_time example_armed example_miss_env = 17499"
    by (rule example_miss(3) [OF a])
  have d: "deadline_passes 17499 (polls example_miss_env)"
    by (simp add: deadline_passes_def example_miss_env_def)
  have n: "no_callback_done example_miss_env"
    using example_miss(2) [OF a] by (simp add: timed_out_def)
  have m: "vo_wayland_wait_frame example_score example_miss_env example_armed
       = Some (example_armed\<lparr>timeout_count := 1\<rparr>)"
    by (simp add: example_miss(1) [OF a] wait_frame_count_def example_armed_simps)
  have l: "wait_loop example_score 17499 example_armed [(0, 0, [Ev_callback_done 0])]
       = Some (frame_callback example_armed (Some 0))"
    by (simp add: vo_wayland_dispatch_events_def handle_event_def example_armed_simps
        frame_callback_fields)
  show ?thesis
    using wait_frame_deadline_and_poll [where wl = example_armed and env = example_miss_env
        and score = example_score and fin = 17499 and t_cond = 0 and t_poll = 0
        and evs = "[Ev_callback_done 0]" and rest = "[]" and c = 0
        and ps = "[(0, 0, [Ev_callback_done 0])]"
        and ?wl1.0 = "frame_callback example_armed (Some 0)"
        and wl_end = "example_armed\<lparr>timeout_count := 1\<rparr>"]
      f d n m l
    by (simp add: example_armed_simps example_armed_count frame_callback_fields)
qed

lemma init_example: "vo_wayland_init example_init_env = Some example_state"
  by (simp add: vo_wayland_init_def example_init_env_def example_state_def wl_zero_state_def
      wl_surface_frame_def request_decoration_mode_def Let_def)

lemma init_one_callback:
  "vo_wayland_init env = Some wl \<Longrightarrow> one_callback wl"
  by (auto simp: vo_wayland_init_def one_callback_def wl_surface_frame_def wl_zero_state_def
      request_decoration_mode_def Let_def split: if_splits)

lemma handle_event_store:
  assumes "handle_event score wl ev = Some wl'" "one_callback wl"
  shows "one_callback wl'"
    and "callbacks wl' \<noteq> callbacks wl \<Longrightarrow>
           ev = Ev_callback_done (hd (callbacks wl)) \<and> callbacks wl' = [next_id wl]"
proof -
  from assms(2) obtain c where c: "callbacks wl = [c]" "frame_callback_ptr wl = Some c"
    by (cases "callbacks wl") (auto simp: one_callback_def)
  have "one_callback wl'
    \<and> (callbacks wl' \<noteq> callbacks wl \<longrightarrow>
           ev = Ev_callback_done (hd (callbacks wl)) \<and> callbacks wl' = [next_id wl])"
  proof (cases ev)
    case (Ev_callback_done d)
    then show ?thesis
      using assms c
      by (auto simp: handle_event_def one_callback_def frame_callback_store split: if_splits)
  next
    case (Ev_toplevel_configure w h states)
    then have "handle_toplevel_config wl w h states = Some wl'"
      using assms(1) by (simp add: handle_event_def)
    from toplevel_config_fields(4,5) [OF this] assms(2) show ?thesis
      by (simp add: one_callback_def)
  next
    case (Ev_data_device_data_offer i)
    then show ?thesis using assms by (auto simp: handle_event_def one_callback_def dnd_pace)
  next
    case (Ev_data_offer_offer m)
    then show ?thesis using assms by (auto simp: handle_event_def one_callback_def dnd_pace)
  next
    case Ev_data_device_leave
    then show ?thesis using assms by (auto simp: handle_event_def one_callback_def dnd_pace)
  next
    case (Ev_data_device_drop pipefd)
    then show ?thesis using assms by (auto simp: handle_event_def one_callback_def dnd_pace)
  next
    case Ev_data_device_selection
    then show ?thesis using assms by (auto simp: handle_event_def one_callback_def dnd_pace)
  qed
  then show "one_callback wl'"
    and "callbacks wl' \<noteq> callbacks wl \<Longrightarrow>
           ev = Ev_callback_done (hd (callbacks wl)) \<and> callbacks wl' = [next_id wl]"
    by simp_all
qed

lemma dispatch_store:
  "dispatch_pending score wl evs = Some wl' \<Longrightarrow> one_callback wl \<Longrightarrow> one_callback wl'"
proof (induction evs arbitrary: wl)
  case Nil
  then show ?case by simp
next
  case (Cons ev evs)
  then show ?case
    by (auto split: option.splits dest: handle_event_store(1))
qed

lemma wait_loop_store:
  "wait_loop score fin wl ps = Some wl' \<Longrightarrow> one_callback wl \<Longrightarrow> one_callback wl'"
proof (induction ps arbitrary: wl)
  case Nil
  then show ?case by (simp split: if_splits)
next
  case (Cons p ps)
  obtain t_cond t_poll evs where p: "p = (t_cond, t_poll, evs)"
    by (cases p)
  show ?case
  proof (cases "frame_wait wl \<and> fin > t_cond")
    case True
    then obtain wl1 where d: "dispatch_pending score wl evs = Some wl1"
      and w: "wait_loop score fin wl1 ps = Some wl'"
      using Cons.prems p by (auto simp: vo_wayland_dispatch_events_def split: option.splits)
    from Cons.IH [OF w dispatch_store [OF d Cons.prems(2)]] show ?thesis .
  next
    case False
    then show ?thesis using Cons.prems p by auto
  qed
qed

lemma wait_frame_store:
  assumes "vo_wayland_wait_frame score env wl = Some wl'" "one_callback wl"
  shows "one_callback wl'"
proof -
  from wait_frame_decomp [OF assms(1)] obtain wl1 wl2
    where l: "wait_loop score (wait_finish_time wl env) wl (polls env) = Some wl1"
      and d: "wl2 = wl1 \<or> dispatch_pending score wl1 (roundtrip_events env) = Some wl2"
      and c: "wl' = wait_frame_count wl2"
    by blast
  have "one_callback wl1"
    by (rule wait_loop_store [OF l assms(2)])
  then have "one_callback wl2"
    using d dispatch_store by auto
  then show ?thesis
    using c by (simp add: one_callback_def count_fields)
qed

lemma set_unfs_store:
  assumes "voctrl_set_unfs_window_size score wl s0 s1 evs = Some wl'" "one_callback wl"
  shows "one_callback wl'"
proof -
  let ?w1 = "wl\<lparr>window_size := \<lparr>x0 = 0, y0 = 0, x1 = c_div s0 (scaling wl),
                 y1 = c_div s1 (scaling wl)\<rparr>\<rparr>"
  have o: "one_callback ?w1"
    using assms(2) by (simp add: one_callback_def)
  have r: "one_callback (w\<lparr>geometry := g, pending_vo_events := e\<rparr>) = one_callback w" for w g e
    by (simp add: one_callback_def)
  from assms(1) show ?thesis
    using o dispatch_store [of score ?w1 evs]
    by (auto simp: voctrl_set_unfs_window_size_def Let_def r split: if_splits option.splits)
qed

lemma reachable_one_callback:
  "reachable score wl \<Longrightarrow> one_callback wl"
proof (induction rule: reachable.induct)
  case (reach_init env wl)
  then show ?case by (rule init_one_callback)
next
  case (reach_event wl ev wl')
  then show ?case by (auto dest: handle_event_store(1))
next
  case (reach_check_visible wl render wl')
  then show ?case by (auto simp: vo_wayland_check_visible_def one_callback_def Let_def)
next
  case (reach_wait_frame wl env wl')
  then show ?case by (auto dest: wait_frame_store)
next
  case (reach_check_events wl r events events' wl')
  have "one_callback (check_dnd_fd wl r) = one_callback wl"
    by (simp add: check_dnd_fd_def one_callback_def Let_def split: poll_result.splits)
  with reach_check_events show ?case
    by (auto simp: voctrl_check_events_def one_callback_def Let_def split: if_splits)
next
  case (reach_set_unfs wl s0 s1 evs wl')
  then show ?case by (auto dest: set_unfs_store)
next
  case (reach_other wl wl')
  then show ?case by (simp add: one_callback_def)
qed

text \<open>
  C6. In every state of a run exactly one frame callback is outstanding, the one that
  \<^verbatim>\<open>wl->frame_callback\<close> points to; in particular there is never more than one.
  Dispatching an event changes the store of callbacks only when the event is the done
  event of the outstanding callback, and then the store holds exactly the callback
  that the listener has just requested; after any dispatched event and after any
  frame wait there is still at most one.
\<close>

theorem one_frame_callback_outstanding:
  assumes "reachable score wl"
  shows "length (callbacks wl) \<le> 1
    \<and> (\<exists>c. callbacks wl = [c] \<and> frame_callback_ptr wl = Some c)
    \<and> (handle_event score wl ev = Some wl' \<and> callbacks wl' \<noteq> callbacks wl \<longrightarrow>
          ev = Ev_callback_done (hd (callbacks wl)) \<and> callbacks wl' = [next_id wl])
    \<and> (handle_event score wl ev = Some wl' \<longrightarrow> length (callbacks wl') \<le> 1)
    \<and> (vo_wayland_wait_frame score env wl = Some wl'' \<longrightarrow> length (callbacks wl'') \<le> 1)"
proof -
  have o: "one_callback wl"
    by (rule reachable_one_callback [OF assms])
  then obtain c where "callbacks wl = [c]" "frame_callback_ptr wl = Some c"
    by (cases "callbacks wl") (auto simp: one_callback_def)
  moreover have "handle_event score wl ev = Some wl' \<longrightarrow> length (callbacks wl') \<le> 1"
    using handle_event_store(1) [OF _ o] by (auto simp: one_callback_def)
  moreover have "vo_wayland_wait_frame score env wl = Some wl'' \<longrightarrow> length (callbacks wl'') \<le> 1"
    using wait_frame_store [OF _ o] by (auto simp: one_callback_def)
  ultimately show ?thesis
    using handle_event_store(2) [OF _ o, of score ev wl'] by auto
qed

theorem one_frame_callback_outstanding_witness:
  "reachable example_score example_armed
   \<and> callbacks example_armed = [0] \<and> frame_callback_ptr example_armed = Some 0
   \<and> handle_event example_score example_armed (Ev_callback_done 0)
       = Some (frame_callback example_armed (Some 0))
   \<and> callbacks (frame_callback example_armed (Some 0)) = [1]
   \<and> vo_wayland_wait_frame example_score example_hit_env example_armed
       = Some ((frame_callback example_armed (Some 0))\<lparr>timeout_count := 0\<rparr>)
   \<and> length (callbacks ((frame_callback example_armed (Some 0))\<lparr>timeout_count := 0\<rparr>)) = 1"
proof -
  have "reachable example_score example_state"
    by (rule reach_init [OF init_example])
  then have r: "reachable example_score example_armed"
    by (rule reach_other) (simp_all add: example_armed_def example_window_def)
  have h: "handle_event example_score example_armed (Ev_callback_done 0)
       = Some (frame_callback example_armed (Some 0))"
    by (simp add: handle_event_def example_armed_simps)
  have w: "vo_wayland_wait_frame example_score example_hit_env example_armed
       = Some ((frame_callback example_armed (Some 0))\<lparr>timeout_count := 0\<rparr>)"
    by (rule example_hit) (simp_all add: example_armed_simps)
  have p: "frame_callback_ptr example_armed = Some 0"
    by (simp add: example_armed_def example_defs)
  show ?thesis
    using one_frame_callback_outstanding [OF r, where ev = "Ev_callback_done 0"
        and wl' = "frame_callback example_armed (Some 0)" and env = example_hit_env
        and wl'' = "(frame_callback example_armed (Some 0))\<lparr>timeout_count := 0\<rparr>"]
      r h w p
    by (simp add: example_armed_simps frame_callback_store)
qed

section \<open>Properties of the importers and of drag and drop\<close>

lemma format_table_loop_set:
  "format_table_loop formats f m = ((f, m) \<in> set formats)"
  by (induction formats f m rule: format_table_loop.induct) auto

lemma drm_formats_loop_set:
  "drm_formats_loop formats f = (f \<in> set formats)"
  by (induction formats f rule: drm_formats_loop.induct) auto

lemma supported_format_iff:
  "vo_wayland_supported_format wl f m
     = ((f, m) \<in> set (format_map wl) \<or> f \<in> set (drm_formats wl))"
  by (simp add: vo_wayland_supported_format_def format_table_loop_set drm_formats_loop_set)

lemma vaapi_importer_checks_format:
  assumes "\<not> vo_wayland_supported_format wl (va_drm_format (va_layers desc 0))
             (va_drm_format_modifier (va_objects desc 0))"
  shows "requests (vaapi_dmabuf_importer wl status desc) = []"
    and "\<not> dmabuf_imported (vaapi_dmabuf_importer wl status desc)"
  using assms by (simp_all add: vaapi_dmabuf_importer_def Let_def)

lemma example_window_formats:
  "format_map example_window = [(0x34325241, 0)]" "drm_formats example_window = []"
  by (simp_all add: example_defs)

text \<open>
  C3. The claim holds for the VA-API importer (lemma \<open>vaapi_importer_checks_format\<close>)
  and fails for the DRM-prime importer, which never consults the format table. The
  compositor of the example advertises linear ARGB only; for the NV12 frame the
  format is not supported, the DRM-prime importer sends the two plane-add requests
  and reports success, and the VA-API importer sends nothing and reports failure.
\<close>

theorem drmprime_importer_skips_format_check:
  "(0x3231564E, 0) \<notin> set (format_map example_window)
   \<and> 0x3231564E \<notin> set (drm_formats example_window)
   \<and> vo_wayland_supported_format example_window 0x3231564E 0 = False
   \<and> drmprime_dmabuf_importer example_window example_nv12_frame
       = \<lparr>dmabuf_imported = True, entry_drm_format = Some 0x3231564E,
          requests = [Params_add 9 0 0 1920 0 0, Params_add 9 1 2073600 1920 0 0],
          closed_fds = []\<rparr>
   \<and> vaapi_dmabuf_importer example_window VA_STATUS_SUCCESS example_nv12_surface
       = \<lparr>dmabuf_imported = False, entry_drm_format = None, requests = [],
          closed_fds = [9]\<rparr>"
proof -
  have u: "[0..<2] = [0, Suc 0]" "[0..<Suc 0] = [0]"
    by (simp_all add: upt_rec)
  have s: "vo_wayland_supported_format example_window 0x3231564E 0 = False"
    by (simp add: supported_format_iff example_window_formats)
  have d: "drmprime_dmabuf_importer example_window example_nv12_frame
       = \<lparr>dmabuf_imported = True, entry_drm_format = Some 0x3231564E,
          requests = [Params_add 9 0 0 1920 0 0, Params_add 9 1 2073600 1920 0 0],
          closed_fds = []\<rparr>"
    by (simp add: drmprime_dmabuf_importer_def drmprime_add_planes_def example_nv12_frame_def
        modifier_hi_def modifier_lo_def Let_def u)
  have v: "vaapi_dmabuf_importer example_window VA_STATUS_SUCCESS example_nv12_surface
       = \<lparr>dmabuf_imported = False, entry_drm_format = None, requests = [],
          closed_fds = [9]\<rparr>"
    by (simp add: vaapi_dmabuf_importer_def example_nv12_surface_def s Let_def u)
  show ?thesis
    using s d v by (simp add: example_window_formats)
qed















end
